theory Spec2Isabelle
  imports Main "HOL-Library.Sublist" "HOL-Library.Word"
begin

section \<open>The rich text editor toolbar module (src/rich\_text\_editor/index.js)\<close>

text \<open>
  The module is a factory returning one object whose methods share the closure
  variables \<open>config\<close>, \<open>toolbar\<close>, \<open>actions\<close> and \<open>lastEl\<close>. The methods mutate
  objects they share with their callers (the options object, the actions array, the
  toolbar element), so objects live in an explicit store and values refer to them by
  address.
\<close>

subsection \<open>Values and objects\<close>

unbundle bit_operations_syntax

type_synonym addr = nat

text \<open>
  A JavaScript number is a double, kept as its 64 bits: the sign (bit 63), the exponent
  (bits 62 to 52) and the fraction (bits 51 to 0). So \<open>0x3FF0000000000000\<close> is 1,
  \<open>0x8000000000000000\<close> is \<open>-0\<close>, \<open>0x7FF0000000000000\<close> is \<open>Infinity\<close>, and every
  number whose exponent is all ones and whose fraction is not zero is \<open>NaN\<close>.
\<close>

type_synonym number = "64 word"

datatype val = Undefined | Null | Bool bool | Num number | Str string | Ref addr

text \<open>What a \<open>throw\<close> carries: the two errors the module itself runs into, and
  whatever a collaborator throws.\<close>

datatype error = TypeError | ReferenceError | Thrown val

text \<open>A DOM element: its class, its inline style (for each property the text last
  assigned to it, the empty string for a property that is not set) and the node it was
  appended to.\<close>

record element =
  className :: string
  style :: "string \<Rightarrow> string"
  parent :: val

datatype kind = Plain | Array "val list" | Element element

text \<open>
  An object: the ordinary properties visible on it (its own and the ones it inherits; a
  write creates or shadows one), and what kind of object it is. An array keeps its
  elements, and an element its class, style and parent, apart from the ordinary
  properties.
\<close>

record obj =
  props :: "string \<rightharpoonup> val"
  kind :: kind

text \<open>
  The store: the address of an object is its index. An address beyond the store is the
  address of no object (a running program holds none): reading through it finds no
  property, and a write through it is lost.
\<close>

type_synonym heap = "obj list"

definition lookup :: "heap \<Rightarrow> addr \<Rightarrow> obj option" where
  "lookup h a = (if a < length h then Some (h ! a) else None)"

definition alloc :: "heap \<Rightarrow> obj \<Rightarrow> heap" where
  "alloc h ob = h @ [ob]"

definition fresh :: "heap \<Rightarrow> val" where
  "fresh h = Ref (length h)"

text \<open>\<open>v.k\<close>, for the property names the module reads (\<open>em\<close>, \<open>el\<close>, \<open>top\<close>, ...), all of
  them ordinary properties of whatever object they are read from: reading a property of
  \<open>undefined\<close> or \<open>null\<close> throws; a property that is not there reads as \<open>undefined\<close>.\<close>

definition get_prop :: "heap \<Rightarrow> val \<Rightarrow> string \<Rightarrow> error + val" where
  "get_prop h v k =
     (case v of
        Undefined \<Rightarrow> Inl TypeError
      | Null \<Rightarrow> Inl TypeError
      | Ref a \<Rightarrow>
          (case lookup h a of
             None \<Rightarrow> Inr Undefined
           | Some ob \<Rightarrow> Inr (case props ob k of None \<Rightarrow> Undefined | Some x \<Rightarrow> x))
      | _ \<Rightarrow> Inr Undefined)"

text \<open>\<open>v.push(x)\<close>: only an array has the method.\<close>

definition array_push :: "heap \<Rightarrow> val \<Rightarrow> val \<Rightarrow> error + heap" where
  "array_push h v x =
     (case v of
        Ref a \<Rightarrow>
          (case lookup h a of
             None \<Rightarrow> Inl TypeError
           | Some ob \<Rightarrow>
               (case kind ob of
                  Array xs \<Rightarrow> Inr (h[a := ob\<lparr>kind := Array (xs @ [x])\<rparr>])
                | _ \<Rightarrow> Inl TypeError))
      | _ \<Rightarrow> Inl TypeError)"

text \<open>\<open>v.style.k = s\<close>: only an element has a style.\<close>

definition set_style :: "heap \<Rightarrow> val \<Rightarrow> string \<Rightarrow> string \<Rightarrow> error + heap" where
  "set_style h v k s =
     (case v of
        Ref a \<Rightarrow>
          (case lookup h a of
             None \<Rightarrow> Inl TypeError
           | Some ob \<Rightarrow>
               (case kind ob of
                  Element e \<Rightarrow>
                    Inr (h[a := ob\<lparr>kind := Element (e\<lparr>style := (style e)(k := s)\<rparr>)\<rparr>])
                | _ \<Rightarrow> Inl TypeError))
      | _ \<Rightarrow> Inl TypeError)"

text \<open>The elements of the array a value refers to, when it refers to one.\<close>

definition elems :: "heap \<Rightarrow> val \<Rightarrow> val list option" where
  "elems h v =
     (case v of
        Ref a \<Rightarrow>
          (case lookup h a of
             None \<Rightarrow> None
           | Some ob \<Rightarrow> (case kind ob of Array xs \<Rightarrow> Some xs | _ \<Rightarrow> None))
      | _ \<Rightarrow> None)"

text \<open>The element a value refers to, when it refers to one.\<close>

definition element_of :: "heap \<Rightarrow> val \<Rightarrow> element option" where
  "element_of h v =
     (case v of
        Ref a \<Rightarrow>
          (case lookup h a of
             None \<Rightarrow> None
           | Some ob \<Rightarrow> (case kind ob of Element e \<Rightarrow> Some e | _ \<Rightarrow> None))
      | _ \<Rightarrow> None)"

subsection \<open>Numbers\<close>

text \<open>The bits of a number without its sign.\<close>

definition magnitude :: "number \<Rightarrow> number" where
  "magnitude d = d AND 0x7FFFFFFFFFFFFFFF"

definition is_nan :: "number \<Rightarrow> bool" where
  "is_nan d = (0x7FF0000000000000 < magnitude d)"

definition is_zero :: "number \<Rightarrow> bool" where
  "is_zero d = (magnitude d = 0)"

text \<open>Doubles other than \<open>NaN\<close> are ordered as their magnitudes are, the negative ones
  the other way round, with \<open>-0\<close> and \<open>0\<close> in the same place.\<close>

definition ordinal :: "number \<Rightarrow> int" where
  "ordinal d = (if bit d 63 then - uint (magnitude d) else uint (magnitude d))"

text \<open>\<open>a <= b\<close> on numbers: false as soon as one of them is \<open>NaN\<close>.\<close>

definition number_le :: "number \<Rightarrow> number \<Rightarrow> bool" where
  "number_le a b = (\<not> is_nan a \<and> \<not> is_nan b \<and> ordinal a \<le> ordinal b)"

text \<open>\<open>a <= b\<close> on strings: the order of the dictionary, on the codes of the
  characters.\<close>

fun string_le :: "string \<Rightarrow> string \<Rightarrow> bool" where
  "string_le [] t = True"
| "string_le (c # s) [] = False"
| "string_le (c # s) (d # t) =
     (if c = d then string_le s t else (of_char c :: nat) < of_char d)"

text \<open>What counts as true in a condition.\<close>

definition truthy :: "val \<Rightarrow> bool" where
  "truthy v =
     (case v of
        Undefined \<Rightarrow> False
      | Null \<Rightarrow> False
      | Bool b \<Rightarrow> b
      | Num d \<Rightarrow> \<not> is_zero d \<and> \<not> is_nan d
      | Str s \<Rightarrow> s \<noteq> []
      | Ref a \<Rightarrow> True)"

subsection \<open>The surroundings of the module\<close>

text \<open>
  The module talks to collaborators it does not own: the views and editors handed to
  \<open>enable\<close> and \<open>disable\<close>, the editor models, the canvas service and the rich text editor
  it constructs. Each call to one of them is recorded, in order, with its receiver and
  arguments; whether the call returns or throws, and what, is supplied by the
  surroundings as a function of the calls made so far. A collaborator does not call back
  into the module, and what it does to the store is not part of the model: the objects
  it returns are objects of the store. The call of the \<open>on\<close> helper of the mixins, which
  adds a listener to the toolbar, is recorded as well.
\<close>

datatype call =
    MixinsOn val string
  | ModelGet val string
  | GetToolsEl val
  | GetTargetToElementDim val val val string
  | GetChildrenContainer val
  | CustomRteEnable val val val
  | NewRichTextEditorEnable val val string string val
  | CustomRteDisable val val val
  | RteDisable val
  | CommandsWhere val val
  | ForeignHandler nat val string

text \<open>
  \<open>defaults\<close> is what \<open>require('./config/config')\<close> yields (its enumerable properties in
  enumeration order); \<open>object_prototype\<close> holds the properties every object literal
  inherits; \<open>toString\<close> is the text an object converts to (every object is taken to
  convert to one); \<open>globals\<close> are the bindings of the global object; \<open>returns\<close> is the
  outcome of the last of the calls made to the collaborators.

  The arithmetic of the engine is taken as it is, with nothing assumed about it:
  \<open>number_add\<close> is the sum of two doubles, \<open>number_to_string\<close> the text of a double and
  \<open>string_to_number\<close> the double a text stands for. The same holds for what an object
  does with a property it intercepts (see \<open>intercepted\<close> below): \<open>intercepted_in\<close> tells
  whether the object has it, \<open>intercepted_write\<close> what an assignment to it makes of the
  object, or throws.
\<close>

record world =
  defaults :: "(string \<times> val) list"
  object_prototype :: "string \<rightharpoonup> val"
  toString :: "addr \<Rightarrow> string"
  globals :: "string \<rightharpoonup> val"
  returns :: "call list \<Rightarrow> error + val"
  number_add :: "number \<Rightarrow> number \<Rightarrow> number"
  number_to_string :: "number \<Rightarrow> string"
  string_to_number :: "string \<Rightarrow> number"
  intercepted_in :: "obj \<Rightarrow> string \<Rightarrow> bool"
  intercepted_write :: "obj \<Rightarrow> string \<Rightarrow> val \<Rightarrow> error + obj"

subsection \<open>Conversions and operators\<close>

text \<open>Conversion to text, as a template literal and \<open>+\<close> with a string do it.\<close>

definition to_string :: "world \<Rightarrow> val \<Rightarrow> string" where
  "to_string w v =
     (case v of
        Undefined \<Rightarrow> ''undefined''
      | Null \<Rightarrow> ''null''
      | Bool b \<Rightarrow> (if b then ''true'' else ''false'')
      | Num d \<Rightarrow> number_to_string w d
      | Str s \<Rightarrow> s
      | Ref a \<Rightarrow> toString w a)"

text \<open>Conversion to a number: \<open>undefined\<close> is \<open>NaN\<close>, \<open>null\<close> and \<open>false\<close> are 0, \<open>true\<close>
  is 1, and an object converts through its text.\<close>

definition to_number :: "world \<Rightarrow> val \<Rightarrow> number" where
  "to_number w v =
     (case v of
        Undefined \<Rightarrow> 0x7FF8000000000000
      | Null \<Rightarrow> 0
      | Bool b \<Rightarrow> (if b then 0x3FF0000000000000 else 0)
      | Num d \<Rightarrow> d
      | Str s \<Rightarrow> string_to_number w s
      | Ref a \<Rightarrow> string_to_number w (toString w a))"

text \<open>The values an operator takes as text: strings, and objects, which convert to
  one.\<close>

definition is_text :: "val \<Rightarrow> bool" where
  "is_text v = (case v of Str s \<Rightarrow> True | Ref a \<Rightarrow> True | _ \<Rightarrow> False)"

text \<open>\<open>a + b\<close>: concatenation as soon as one operand is a string (an object converts to
  one), addition of numbers otherwise.\<close>

definition js_add :: "world \<Rightarrow> val \<Rightarrow> val \<Rightarrow> val" where
  "js_add w a b =
     (if is_text a \<or> is_text b then Str (to_string w a @ to_string w b)
      else Num (number_add w (to_number w a) (to_number w b)))"

text \<open>\<open>a <= b\<close>: the order of strings when both operands are strings (an object
  converts to one), the order of numbers otherwise.\<close>

definition js_le :: "world \<Rightarrow> val \<Rightarrow> val \<Rightarrow> bool" where
  "js_le w a b =
     (if is_text a \<and> is_text b then string_le (to_string w a) (to_string w b)
      else number_le (to_number w a) (to_number w b))"

subsection \<open>Properties that objects intercept\<close>

text \<open>
  An assignment to an ordinary property stores the value. Some properties are not
  ordinary: \<open>__proto__\<close> on every object, the length and the indices of an array, and on
  an element the properties standing for its class, style and parent. What the object
  does with them is part of the surroundings.
\<close>

definition digits :: "string \<Rightarrow> bool" where
  "digits k = (k \<noteq> [] \<and> list_all (\<lambda>c. c \<in> set ''0123456789'') k)"

fun intercepted :: "kind \<Rightarrow> string \<Rightarrow> bool" where
  "intercepted Plain k = (k = ''__proto__'')"
| "intercepted (Array xs) k = (k = ''__proto__'' \<or> k = ''length'' \<or> digits k)"
| "intercepted (Element e) k =
     (k = ''__proto__'' \<or> k = ''className'' \<or> k = ''classList'' \<or> k = ''style'' \<or>
      k = ''parentNode'' \<or> k = ''parentElement'')"

text \<open>\<open>k in v\<close>: throws unless \<open>v\<close> is an object.\<close>

definition has_prop :: "world \<Rightarrow> heap \<Rightarrow> string \<Rightarrow> val \<Rightarrow> error + bool" where
  "has_prop w h k v =
     (case v of
        Ref a \<Rightarrow>
          (case lookup h a of
             None \<Rightarrow> Inr False
           | Some ob \<Rightarrow>
               Inr (if intercepted (kind ob) k then intercepted_in w ob k
                    else props ob k \<noteq> None))
      | _ \<Rightarrow> Inl TypeError)"

text \<open>\<open>v.k = x\<close>: the file is an ES module, hence strict code, where assigning a
  property of a primitive throws as it does for \<open>undefined\<close> and \<open>null\<close>.\<close>

definition set_prop :: "world \<Rightarrow> heap \<Rightarrow> val \<Rightarrow> string \<Rightarrow> val \<Rightarrow> error + heap" where
  "set_prop w h v k x =
     (case v of
        Ref a \<Rightarrow>
          (case lookup h a of
             None \<Rightarrow> Inr h
           | Some ob \<Rightarrow>
               (if intercepted (kind ob) k
                then (case intercepted_write w ob k x of
                        Inl e \<Rightarrow> Inl e
                      | Inr ob' \<Rightarrow> Inr (h[a := ob']))
                else Inr (h[a := ob\<lparr>props := (props ob)(k \<mapsto> x)\<rparr>])))
      | _ \<Rightarrow> Inl TypeError)"

subsection \<open>The state of the module\<close>

datatype handler = UdpatePosition | Foreign nat

text \<open>
  \<open>config\<close>, \<open>toolbar\<close>, \<open>actions\<close> and \<open>lastEl\<close> are the closure variables;
  \<open>customRte\<close>, \<open>pfx\<close> and \<open>actionbar\<close> are the fields of the module object the
  methods read and write through \<open>this\<close>. \<open>listeners\<close> holds the subscriptions of the
  event models (event model, event name, callback), \<open>timeouts\<close> the callbacks passed to
  \<open>setTimeout\<close> that have not run yet, \<open>calls\<close> the calls to collaborators so far.
\<close>

record state =
  heap :: heap
  config :: val
  toolbar :: val
  actions :: val
  lastEl :: val
  customRte :: val
  pfx :: val
  actionbar :: val
  listeners :: "(val \<times> string \<times> handler) list"
  timeouts :: "handler list"
  calls :: "call list"

definition new_object :: "world \<Rightarrow> obj" where
  "new_object w = \<lparr>props = object_prototype w, kind = Plain\<rparr>"

definition new_array :: obj where
  "new_array = \<lparr>props = Map.empty, kind = Array []\<rparr>"

definition new_div :: obj where
  "new_div = \<lparr>props = Map.empty,
              kind = Element \<lparr>className = [], style = (\<lambda>k. []), parent = Null\<rparr>\<rparr>"

text \<open>The factory: \<open>let config = {}\<close>, the other variables undefined, \<open>customRte: null\<close>.
  \<open>h\<close> and \<open>ls\<close> are the objects and subscriptions that exist already.\<close>

definition module_exports :: "world \<Rightarrow> heap \<Rightarrow> (val \<times> string \<times> handler) list \<Rightarrow> state" where
  "module_exports w h ls =
     \<lparr>heap = alloc h (new_object w), config = fresh h, toolbar = Undefined,
      actions = Undefined, lastEl = Undefined, customRte = Null, pfx = Undefined,
      actionbar = Undefined, listeners = ls, timeouts = [], calls = []\<rparr>"

text \<open>A value that is an object, as opposed to a primitive, \<open>undefined\<close> or \<open>null\<close>.\<close>

definition is_object :: "val \<Rightarrow> bool" where
  "is_object v = (case v of Ref a \<Rightarrow> True | _ \<Rightarrow> False)"

text \<open>A method call on a collaborator: throws unless the receiver is an object, and
  returns or throws as the collaborator does.\<close>

definition call_method :: "world \<Rightarrow> val \<Rightarrow> call \<Rightarrow> state \<Rightarrow> (error + val) \<times> state" where
  "call_method w recv c st =
     (if is_object recv
      then (returns w (calls st @ [c]), st\<lparr>calls := calls st @ [c]\<rparr>)
      else (Inl TypeError, st))"

subsection \<open>init\<close>

text \<open>
  The loop \<open>for (let name in defaults) if (!(name in config)) config[name] =
  defaults[name]\<close>. \<open>names\<close> are the names still to visit.
\<close>

definition defaults_at :: "world \<Rightarrow> string \<Rightarrow> val" where
  "defaults_at w name = (case map_of (defaults w) name of None \<Rightarrow> Undefined | Some v \<Rightarrow> v)"

fun copy_defaults :: "world \<Rightarrow> string list \<Rightarrow> val \<Rightarrow> heap \<Rightarrow> error + heap" where
  "copy_defaults w [] cfg h = Inr h"
| "copy_defaults w (name # names) cfg h =
     (case has_prop w h name cfg of
        Inl e \<Rightarrow> Inl e
      | Inr True \<Rightarrow> copy_defaults w names cfg h
      | Inr False \<Rightarrow>
          (case set_prop w h cfg name (defaults_at w name) of
             Inl e \<Rightarrow> Inl e
           | Inr h' \<Rightarrow> copy_defaults w names cfg h'))"

text \<open>\<open>toolbar.className = s\<close> on the element just created.\<close>

definition set_className :: "heap \<Rightarrow> val \<Rightarrow> string \<Rightarrow> heap" where
  "set_className h v s =
     (case v of
        Ref a \<Rightarrow>
          (case lookup h a of
             None \<Rightarrow> h
           | Some ob \<Rightarrow>
               (case kind ob of
                  Element e \<Rightarrow> h[a := ob\<lparr>kind := Element (e\<lparr>className := s\<rparr>)\<rparr>]
                | _ \<Rightarrow> h[a := ob\<lparr>props := (props ob)(''className'' \<mapsto> Str s)\<rparr>]))
      | _ \<Rightarrow> h)"

text \<open>
  The part of \<open>init\<close> after the loop, in the state the loop left, with \<open>ppfx\<close> the
  value read from \<open>config.pStylePrefix\<close>. The call of the \<open>on\<close> helper is recorded; its
  result is not used. \<open>init\<close> returns \<open>this\<close>, the module itself, which is not a value of
  the store: the result is the unit.
\<close>

definition init_rest :: "world \<Rightarrow> val \<Rightarrow> state \<Rightarrow> (error + unit) \<times> state" where
  "init_rest w ppfx st =
     (case (if truthy ppfx
            then (case get_prop (heap st) (config st) ''stylePrefix'' of
                    Inl e \<Rightarrow> Inl e
                  | Inr sp \<Rightarrow> set_prop w (heap st) (config st) ''stylePrefix'' (js_add w ppfx sp))
            else Inr (heap st)) of
        Inl e \<Rightarrow> (Inl e, st)
      | Inr h2 \<Rightarrow>
          (case get_prop h2 (config st) ''stylePrefix'' of
             Inl e \<Rightarrow> (Inl e, st\<lparr>heap := h2\<rparr>)
           | Inr sp \<Rightarrow>
               (case get_prop h2 (config st) ''actions'' of
                  Inl e \<Rightarrow> (Inl e, st\<lparr>heap := h2, pfx := sp\<rparr>)
                | Inr acts \<Rightarrow>
                    (let h3 = (if truthy acts then h2 else alloc h2 new_array);
                         as = (if truthy acts then acts else fresh h2);
                         tb = fresh h3;
                         h4 = set_className (alloc h3 new_div) tb
                                (to_string w ppfx @ ''rte-toolbar'')
                     in (Inr (),
                         st\<lparr>heap := h4, pfx := sp, actions := as, toolbar := tb,
                            calls := calls st @ [MixinsOn tb ''mousedown'']\<rparr>)))))"

text \<open>\<open>init(opts = {})\<close>: the default applies to \<open>undefined\<close> only.\<close>

definition init :: "world \<Rightarrow> val \<Rightarrow> state \<Rightarrow> (error + unit) \<times> state" where
  "init w opts st =
     (let h0 = (if opts = Undefined then alloc (heap st) (new_object w) else heap st);
          cfg = (if opts = Undefined then fresh (heap st) else opts)
      in case copy_defaults w (map fst (defaults w)) cfg h0 of
           Inl e \<Rightarrow> (Inl e, st\<lparr>heap := h0, config := cfg\<rparr>)
         | Inr h1 \<Rightarrow>
             (case get_prop h1 cfg ''pStylePrefix'' of
                Inl e \<Rightarrow> (Inl e, st\<lparr>heap := h1, config := cfg\<rparr>)
              | Inr ppfx \<Rightarrow> init_rest w ppfx (st\<lparr>heap := h1, config := cfg\<rparr>)))"

subsection \<open>postRender\<close>

text \<open>\<open>p.appendChild(v)\<close>: \<open>p\<close> has to be a node, and \<open>v\<close> with it.\<close>

definition appendChild :: "heap \<Rightarrow> val \<Rightarrow> val \<Rightarrow> error + heap" where
  "appendChild h p v =
     (case p of
        Ref b \<Rightarrow>
          (case v of
             Ref a \<Rightarrow>
               (case lookup h a of
                  None \<Rightarrow> Inl TypeError
                | Some ob \<Rightarrow>
                    (case kind ob of
                       Element e \<Rightarrow> Inr (h[a := ob\<lparr>kind := Element (e\<lparr>parent := p\<rparr>)\<rparr>])
                     | _ \<Rightarrow> Inl TypeError))
           | _ \<Rightarrow> Inl TypeError)
      | _ \<Rightarrow> Inl TypeError)"

definition postRender :: "world \<Rightarrow> val \<Rightarrow> state \<Rightarrow> (error + val) \<times> state" where
  "postRender w ev st =
     (case get_prop (heap st) ev ''model'' of
        Inl e \<Rightarrow> (Inl e, st)
      | Inr m \<Rightarrow>
          (case call_method w m (ModelGet m ''Canvas'') st of
             (Inl e, st1) \<Rightarrow> (Inl e, st1)
           | (Inr canvas, st1) \<Rightarrow>
               (case set_style (heap st1) (toolbar st1) ''pointerEvents'' ''all'' of
                  Inl e \<Rightarrow> (Inl e, st1)
                | Inr h2 \<Rightarrow>
                    (case call_method w canvas (GetToolsEl canvas) (st1\<lparr>heap := h2\<rparr>) of
                       (Inl e, st3) \<Rightarrow> (Inl e, st3)
                     | (Inr tools, st3) \<Rightarrow>
                         (case appendChild (heap st3) tools (toolbar st3) of
                            Inl e \<Rightarrow> (Inl e, st3)
                          | Inr h4 \<Rightarrow> (Inr Undefined, st3\<lparr>heap := h4\<rparr>))))))"

subsection \<open>add, get, getAll\<close>

text \<open>\<open>add(name, opts = {})\<close>.\<close>

definition add :: "world \<Rightarrow> val \<Rightarrow> val \<Rightarrow> state \<Rightarrow> (error + val) \<times> state" where
  "add w name opts st =
     (let h0 = (if opts = Undefined then alloc (heap st) (new_object w) else heap st);
          ob = (if opts = Undefined then fresh (heap st) else opts)
      in case set_prop w h0 ob ''name'' name of
           Inl e \<Rightarrow> (Inl e, st\<lparr>heap := h0\<rparr>)
         | Inr h1 \<Rightarrow>
             (case array_push h1 (actions st) ob of
                Inl e \<Rightarrow> (Inl e, st\<lparr>heap := h1\<rparr>)
              | Inr h2 \<Rightarrow> (Inr Undefined, st\<lparr>heap := h2\<rparr>)))"

text \<open>\<open>v[0]\<close>.\<close>

definition index0 :: "heap \<Rightarrow> val \<Rightarrow> error + val" where
  "index0 h v =
     (case v of
        Undefined \<Rightarrow> Inl TypeError
      | Null \<Rightarrow> Inl TypeError
      | Str s \<Rightarrow> Inr (case s of [] \<Rightarrow> Undefined | c # cs \<Rightarrow> Str [c])
      | Ref a \<Rightarrow>
          (case lookup h a of
             None \<Rightarrow> Inr Undefined
           | Some ob \<Rightarrow>
               (case kind ob of
                  Array xs \<Rightarrow> Inr (case xs of [] \<Rightarrow> Undefined | x # ys \<Rightarrow> x)
                | _ \<Rightarrow> Inr (case props ob ''0'' of None \<Rightarrow> Undefined | Some x \<Rightarrow> x)))
      | _ \<Rightarrow> Inr Undefined)"

text \<open>
  \<open>get\<close> and \<open>getAll\<close> read the identifier \<open>commands\<close>. The module declares \<open>config\<close>,
  \<open>defaults\<close>, \<open>toolbar\<close>, \<open>actions\<close> and \<open>lastEl\<close> and imports \<open>RichTextEditor\<close>, \<open>on\<close>
  and \<open>off\<close>; \<open>commands\<close> is none of them, so the identifier resolves on the global
  object and throws a ReferenceError when it is not bound there.
\<close>

definition get :: "world \<Rightarrow> val \<Rightarrow> state \<Rightarrow> (error + val) \<times> state" where
  "get w command st =
     (case globals w ''commands'' of
        None \<Rightarrow> (Inl ReferenceError, st)
      | Some c \<Rightarrow>
          (case call_method w c (CommandsWhere c command) st of
             (Inl e, st1) \<Rightarrow> (Inl e, st1)
           | (Inr r, st1) \<Rightarrow> (index0 (heap st1) r, st1)))"

definition getAll :: "world \<Rightarrow> state \<Rightarrow> (error + val) \<times> state" where
  "getAll w st =
     (case globals w ''commands'' of
        None \<Rightarrow> (Inl ReferenceError, st)
      | Some c \<Rightarrow> (Inr c, st))"

definition getToolbarEl :: "state \<Rightarrow> (error + val) \<times> state" where
  "getToolbarEl st = (Inr (toolbar st), st)"

subsection \<open>udpatePosition\<close>

text \<open>The branch \<open>if (config.adjustToolbar) if (pos.top <= pos.canvasTop) pos.top =
  pos.elementTop + pos.elementHeight\<close>, with \<open>adj\<close> the value of \<open>config.adjustToolbar\<close>:
  it writes into the object the canvas service returned.\<close>

definition adjust :: "world \<Rightarrow> val \<Rightarrow> val \<Rightarrow> heap \<Rightarrow> error + heap" where
  "adjust w adj pos h =
     (if truthy adj
      then (case get_prop h pos ''top'' of
              Inl e \<Rightarrow> Inl e
            | Inr t \<Rightarrow>
                (case get_prop h pos ''canvasTop'' of
                   Inl e \<Rightarrow> Inl e
                 | Inr ct \<Rightarrow>
                     (if js_le w t ct
                      then (case get_prop h pos ''elementTop'' of
                              Inl e \<Rightarrow> Inl e
                            | Inr et \<Rightarrow>
                                (case get_prop h pos ''elementHeight'' of
                                   Inl e \<Rightarrow> Inl e
                                 | Inr eh \<Rightarrow> set_prop w h pos ''top'' (js_add w et eh)))
                      else Inr h)))
      else Inr h)"

text \<open>\<open>toolbarStyle.top = pos.top + un; toolbarStyle.left = pos.left + un\<close>, the style
  being that of the toolbar.\<close>

definition place :: "world \<Rightarrow> val \<Rightarrow> state \<Rightarrow> (error + val) \<times> state" where
  "place w pos st =
     (case get_prop (heap st) pos ''top'' of
        Inl e \<Rightarrow> (Inl e, st)
      | Inr t \<Rightarrow>
          (case set_style (heap st) (toolbar st) ''top''
                  (to_string w (js_add w t (Str ''px''))) of
             Inl e \<Rightarrow> (Inl e, st)
           | Inr h1 \<Rightarrow>
               (case get_prop h1 pos ''left'' of
                  Inl e \<Rightarrow> (Inl e, st\<lparr>heap := h1\<rparr>)
                | Inr l \<Rightarrow>
                    (case set_style h1 (toolbar st) ''left''
                            (to_string w (js_add w l (Str ''px''))) of
                       Inl e \<Rightarrow> (Inl e, st\<lparr>heap := h1\<rparr>)
                     | Inr h2 \<Rightarrow> (Inr Undefined, st\<lparr>heap := h2\<rparr>)))))"

definition udpatePosition :: "world \<Rightarrow> state \<Rightarrow> (error + val) \<times> state" where
  "udpatePosition w st =
     (case get_prop (heap st) (config st) ''em'' of
        Inl e \<Rightarrow> (Inl e, st)
      | Inr em \<Rightarrow>
          (case call_method w em (ModelGet em ''Canvas'') st of
             (Inl e, st1) \<Rightarrow> (Inl e, st1)
           | (Inr canvas, st1) \<Rightarrow>
               (case call_method w canvas
                       (GetTargetToElementDim canvas (toolbar st1) (lastEl st1)
                          ''rteToolbarPosUpdate'') st1 of
                  (Inl e, st2) \<Rightarrow> (Inl e, st2)
                | (Inr pos, st2) \<Rightarrow>
                    (case get_prop (heap st2) (config st2) ''adjustToolbar'' of
                       Inl e \<Rightarrow> (Inl e, st2)
                     | Inr adj \<Rightarrow>
                         (case adjust w adj pos (heap st2) of
                            Inl e \<Rightarrow> (Inl e, st2)
                          | Inr h3 \<Rightarrow> place w pos (st2\<lparr>heap := h3\<rparr>))))))"

subsection \<open>The event model\<close>

text \<open>
  \<open>config.em\<close> is the editor model of the host application. The module subscribes to
  its events with \<open>on\<close> and \<open>off\<close>, and the host fires them with \<open>trigger\<close>; none of the
  three is among the sources.
\<close>

text \<open>Modelled from the spec: how \<open>on\<close> and \<open>off\<close> read the event string
  \<open>'change:canvasOffset canvasScroll'\<close>, missing from the sources: as the event names
  that the spaces separate. \<open>cur\<close> is the name read so far.\<close>

fun split_events :: "string \<Rightarrow> string \<Rightarrow> string list" where
  "split_events cur [] = (if cur = [] then [] else [cur])"
| "split_events cur (c # cs) =
     (if c = CHR '' ''
      then (if cur = [] then split_events [] cs else cur # split_events [] cs)
      else split_events (cur @ [c]) cs)"

text \<open>Modelled from the spec: \<open>em.off(event, callback, context)\<close>, missing from the
  sources: it unsubscribes the callback from each of the events named.\<close>

definition em_off ::
  "(val \<times> string \<times> handler) list \<Rightarrow> val \<Rightarrow> string \<Rightarrow> handler \<Rightarrow> (val \<times> string \<times> handler) list"
where
  "em_off ls em ev f =
     filter (\<lambda>(e, n, g). \<not> (e = em \<and> n \<in> set (split_events [] ev) \<and> g = f)) ls"

text \<open>Modelled from the spec: \<open>em.on(event, callback, context)\<close>, missing from the
  sources: it subscribes the callback to each of the events named.\<close>

definition em_on ::
  "(val \<times> string \<times> handler) list \<Rightarrow> val \<Rightarrow> string \<Rightarrow> handler \<Rightarrow> (val \<times> string \<times> handler) list"
where
  "em_on ls em ev f = ls @ map (\<lambda>n. (em, n, f)) (split_events [] ev)"

text \<open>The callbacks subscribed on \<open>em\<close> to the event \<open>name\<close>, in subscription order.\<close>

definition subscribed :: "(val \<times> string \<times> handler) list \<Rightarrow> val \<Rightarrow> string \<Rightarrow> handler list" where
  "subscribed ls em name =
     map (\<lambda>(e, n, g). g) (filter (\<lambda>(e, n, g). e = em \<and> n = name) ls)"

text \<open>Modelled from the spec: \<open>em.trigger(name)\<close>, missing from the sources: an event
  fired on the event model runs the callbacks subscribed to it, in order, until one
  throws, and returns the event model. A callback of another module is recorded as a
  call.\<close>

fun run_handlers ::
  "world \<Rightarrow> handler list \<Rightarrow> val \<Rightarrow> string \<Rightarrow> state \<Rightarrow> (error + val) \<times> state"
where
  "run_handlers w [] em name st = (Inr em, st)"
| "run_handlers w (UdpatePosition # hs) em name st =
     (case udpatePosition w st of
        (Inl e, st1) \<Rightarrow> (Inl e, st1)
      | (Inr r, st1) \<Rightarrow> run_handlers w hs em name st1)"
| "run_handlers w (Foreign k # hs) em name st =
     run_handlers w hs em name (st\<lparr>calls := calls st @ [ForeignHandler k em name]\<rparr>)"

text \<open>Modelled from the spec: \<open>em.trigger(name)\<close>, on the callbacks subscribed when the
  event is fired.\<close>

definition trigger :: "world \<Rightarrow> val \<Rightarrow> string \<Rightarrow> state \<Rightarrow> (error + val) \<times> state" where
  "trigger w em name st = run_handlers w (subscribed (listeners st) em name) em name st"

text \<open>The browser runs the oldest pending \<open>setTimeout\<close> callback.\<close>

definition run_timeout :: "world \<Rightarrow> state \<Rightarrow> (error + val) \<times> state" where
  "run_timeout w st =
     (case timeouts st of
        [] \<Rightarrow> (Inr Undefined, st)
      | UdpatePosition # hs \<Rightarrow> udpatePosition w (st\<lparr>timeouts := hs\<rparr>)
      | Foreign k # hs \<Rightarrow> (Inr Undefined, st\<lparr>timeouts := hs\<rparr>))"

subsection \<open>enable and disable\<close>

definition event :: string where
  "event = ''change:canvasOffset canvasScroll''"

text \<open>\<open>rte = customRte ? customRte.enable(el, rte) : new RichTextEditor({el,
  actionbarContainer, classes, actionbar}).enable()\<close>.\<close>

definition enable_rte :: "world \<Rightarrow> val \<Rightarrow> val \<Rightarrow> state \<Rightarrow> (error + val) \<times> state" where
  "enable_rte w el rte st =
     (if truthy (customRte st)
      then call_method w (customRte st) (CustomRteEnable (customRte st) el rte) st
      else (let c = NewRichTextEditorEnable el (toolbar st)
                      (to_string w (pfx st) @ ''actionbar'')
                      (to_string w (pfx st) @ ''action'') (actionbar st)
            in (returns w (calls st @ [c]), st\<lparr>calls := calls st @ [c]\<rparr>)))"

text \<open>The block \<open>if (em) { setTimeout(...); em.off(event, ...); em.on(event, ...) }\<close>.\<close>

definition subscribe :: "val \<Rightarrow> state \<Rightarrow> (error + unit) \<times> state" where
  "subscribe em st =
     (if truthy em
      then (let st1 = st\<lparr>timeouts := timeouts st @ [UdpatePosition]\<rparr>
            in if is_object em
               then (Inr (),
                     st1\<lparr>listeners :=
                           em_on (em_off (listeners st1) em event UdpatePosition)
                             em event UdpatePosition\<rparr>)
               else (Inl TypeError, st1))
      else (Inr (), st))"

definition enable :: "world \<Rightarrow> val \<Rightarrow> val \<Rightarrow> state \<Rightarrow> (error + val) \<times> state" where
  "enable w view rte st =
     (case get_prop (heap st) view ''el'' of
        Inl e \<Rightarrow> (Inl e, st)
      | Inr vel \<Rightarrow>
          (case get_prop (heap st) (config st) ''em'' of
             Inl e \<Rightarrow> (Inl e, st\<lparr>lastEl := vel\<rparr>)
           | Inr em \<Rightarrow>
               (case call_method w view (GetChildrenContainer view) (st\<lparr>lastEl := vel\<rparr>) of
                  (Inl e, st2) \<Rightarrow> (Inl e, st2)
                | (Inr el, st2) \<Rightarrow>
                    (case set_style (heap st2) (toolbar st2) ''display'' [] of
                       Inl e \<Rightarrow> (Inl e, st2)
                     | Inr h3 \<Rightarrow>
                         (case enable_rte w el rte (st2\<lparr>heap := h3\<rparr>) of
                            (Inl e, st4) \<Rightarrow> (Inl e, st4)
                          | (Inr rte1, st4) \<Rightarrow>
                              (case get_prop (heap st4) rte1 ''actionbar'' of
                                 Inl e \<Rightarrow> (Inl e, st4)
                               | Inr ab \<Rightarrow>
                                   (case subscribe em
                                           (if truthy ab then st4\<lparr>actionbar := ab\<rparr>
                                            else st4) of
                                      (Inl e, st6) \<Rightarrow> (Inl e, st6)
                                    | (Inr u, st6) \<Rightarrow> (Inr rte1, st6))))))))"

definition disable :: "world \<Rightarrow> val \<Rightarrow> val \<Rightarrow> state \<Rightarrow> (error + val) \<times> state" where
  "disable w view rte st =
     (case call_method w view (GetChildrenContainer view) st of
        (Inl e, st1) \<Rightarrow> (Inl e, st1)
      | (Inr el, st1) \<Rightarrow>
          (case (if truthy (customRte st1)
                 then call_method w (customRte st1)
                        (CustomRteDisable (customRte st1) el rte) st1
                 else call_method w rte (RteDisable rte) st1) of
             (Inl e, st2) \<Rightarrow> (Inl e, st2)
           | (Inr r, st2) \<Rightarrow>
               (case set_style (heap st2) (toolbar st2) ''display'' ''none'' of
                  Inl e \<Rightarrow> (Inl e, st2)
                | Inr h3 \<Rightarrow> (Inr Undefined, st2\<lparr>heap := h3\<rparr>))))"

subsection \<open>Runs of the module\<close>

text \<open>
  What can happen to a module in use: a call of one of its methods, an event fired on
  an event model, a pending timeout running, and the surroundings creating an object,
  assigning an ordinary property of an object, or setting \<open>customRte\<close>, the public field
  of the module. \<open>exec\<close> is the state an operation leaves, whether it returned or threw.
  \<open>Write v k x\<close> stands for the assignment \<open>v.k = x\<close> of a property that \<open>v\<close> does not
  intercept; no operation stands for the assignment of one that it does.
\<close>

definition ordinary :: "heap \<Rightarrow> val \<Rightarrow> string \<Rightarrow> bool" where
  "ordinary h v k =
     (case v of
        Ref a \<Rightarrow>
          (case lookup h a of None \<Rightarrow> True | Some ob \<Rightarrow> \<not> intercepted (kind ob) k)
      | _ \<Rightarrow> True)"

datatype op =
    Init val
  | PostRender val
  | Add val val
  | Get val
  | GetAll
  | UdpatePositionOp
  | Enable val val
  | Disable val val
  | GetToolbarEl
  | Trigger val string
  | Timeout
  | Create obj
  | Write val string val
  | SetCustomRte val

fun exec :: "world \<Rightarrow> op \<Rightarrow> state \<Rightarrow> state" where
  "exec w (Init opts) st = snd (init w opts st)"
| "exec w (PostRender ev) st = snd (postRender w ev st)"
| "exec w (Add name opts) st = snd (add w name opts st)"
| "exec w (Get command) st = snd (get w command st)"
| "exec w GetAll st = snd (getAll w st)"
| "exec w UdpatePositionOp st = snd (udpatePosition w st)"
| "exec w (Enable view rte) st = snd (enable w view rte st)"
| "exec w (Disable view rte) st = snd (disable w view rte st)"
| "exec w GetToolbarEl st = snd (getToolbarEl st)"
| "exec w (Trigger em name) st = snd (trigger w em name st)"
| "exec w Timeout st = snd (run_timeout w st)"
| "exec w (Create ob) st = st\<lparr>heap := alloc (heap st) ob\<rparr>"
| "exec w (Write v k x) st =
     (if ordinary (heap st) v k
      then (case set_prop w (heap st) v k x of Inl e \<Rightarrow> st | Inr h \<Rightarrow> st\<lparr>heap := h\<rparr>)
      else st)"
| "exec w (SetCustomRte v) st = st\<lparr>customRte := v\<rparr>"

fun run :: "world \<Rightarrow> op list \<Rightarrow> state \<Rightarrow> state" where
  "run w [] st = st"
| "run w (x # xs) st = run w xs (exec w x st)"


subsection \<open>Auxiliary notions\<close>

text \<open>Which objects of the store are elements, and of which class.\<close>

definition skeleton :: "heap \<Rightarrow> string option list" where
  "skeleton h = map (\<lambda>ob. case kind ob of Element e \<Rightarrow> Some (className e) | _ \<Rightarrow> None) h"

fun is_Init :: "op \<Rightarrow> bool" where
  "is_Init (Init opts) = True"
| "is_Init x = False"

fun is_Enable :: "op \<Rightarrow> bool" where
  "is_Enable (Enable view rte) = True"
| "is_Enable x = False"





text \<open>
  What \<open>disable(view, rte)\<close> needs in order to return: a view that is an object and whose
  \<open>getChildrenContainer\<close> returns; an editor to pass through to, the custom one when one
  is set and \<open>rte\<close> otherwise, that is an object and whose \<open>disable\<close> returns; and a
  toolbar that is an element.
\<close>

definition can_disable :: "world \<Rightarrow> val \<Rightarrow> val \<Rightarrow> state \<Rightarrow> bool" where
  "can_disable w view rte st =
     (is_object view \<and>
      (case returns w (calls st @ [GetChildrenContainer view]) of
         Inl e \<Rightarrow> False
       | Inr el \<Rightarrow>
           (if truthy (customRte st)
            then is_object (customRte st) \<and>
                 \<not> isl (returns w (calls st @ [GetChildrenContainer view,
                                      CustomRteDisable (customRte st) el rte]))
            else is_object rte \<and>
                 \<not> isl (returns w (calls st @ [GetChildrenContainer view, RteDisable rte])))) \<and>
      element_of (heap st) (toolbar st) \<noteq> None)"

subsection \<open>A concrete editor\<close>

text \<open>
  A small world to run the module in: the store holds the options object (0), the event
  model (1), a view (2) with its element (3), the canvas service (4), an editor
  instance (5) and the options of an action (6). Every call to a collaborator returns:
  the canvas service for \<open>get('Canvas')\<close>, the element of the view for
  \<open>getChildrenContainer\<close> and \<open>getToolsEl\<close>, the object at address 10 for
  \<open>getTargetToElementDim\<close>, and the editor instance for the calls to an editor. Of the
  arithmetic of the engine it has what the examples need (20 + 30 = 50 and 1 + 0 = 1,
  and the texts of 50, 7 and 1) and answers \<open>NaN\<close> elsewhere, which no example reads. No
  example converts a text to a number or assigns a property that an object intercepts.
\<close>

definition returns0 :: "call list \<Rightarrow> error + val" where
  "returns0 cs =
     Inr (Ref (case last cs of
                 ModelGet m k \<Rightarrow> 4
               | GetChildrenContainer v \<Rightarrow> 3
               | GetToolsEl c \<Rightarrow> 3
               | GetTargetToElementDim c tb el ev \<Rightarrow> 10
               | _ \<Rightarrow> 5))"

definition number_add0 :: "number \<Rightarrow> number \<Rightarrow> number" where
  "number_add0 a b =
     (if a = 0x4034000000000000 \<and> b = 0x403E000000000000 then 0x4049000000000000
      else if a = 0x3FF0000000000000 \<and> b = 0 then 0x3FF0000000000000
      else 0x7FF8000000000000)"

definition number_to_string0 :: "number \<Rightarrow> string" where
  "number_to_string0 d =
     (if d = 0x4049000000000000 then ''50''
      else if d = 0x401C000000000000 then ''7''
      else if d = 0x3FF0000000000000 then ''1''
      else ''NaN'')"

definition w0 :: world where
  "w0 = \<lparr>defaults = [(''stylePrefix'', Str ''rte-''), (''adjustToolbar'', Num 0x3FF0000000000000)],
         object_prototype = Map.empty, toString = (\<lambda>a. ''[object Object]''),
         globals = Map.empty, returns = returns0,
         number_add = number_add0, number_to_string = number_to_string0,
         string_to_number = (\<lambda>s. 0x7FF8000000000000),
         intercepted_in = (\<lambda>ob k. False),
         intercepted_write = (\<lambda>ob k x. Inr ob)\<rparr>"

definition h0 :: heap where
  "h0 = [\<lparr>props = [''pStylePrefix'' \<mapsto> Str ''gjs-'', ''stylePrefix'' \<mapsto> Str ''rte-'',
                   ''em'' \<mapsto> Ref 1],
          kind = Plain\<rparr>,
         \<lparr>props = Map.empty, kind = Plain\<rparr>,
         \<lparr>props = [''el'' \<mapsto> Ref 3], kind = Plain\<rparr>,
         \<lparr>props = Map.empty, kind = Plain\<rparr>,
         \<lparr>props = Map.empty, kind = Plain\<rparr>,
         \<lparr>props = Map.empty, kind = Plain\<rparr>,
         \<lparr>props = [''title'' \<mapsto> Str ''Bold''], kind = Plain\<rparr>]"

text \<open>The module as created, after \<open>init(opts)\<close>, after \<open>enable(view)\<close>, and after
  \<open>disable(view, rte)\<close>.\<close>

definition s0 :: state where
  "s0 = module_exports w0 h0 []"

definition s1 :: state where
  "s1 = snd (init w0 (Ref 0) s0)"

definition s2 :: state where
  "s2 = snd (enable w0 (Ref 2) Undefined s1)"

definition s3 :: state where
  "s3 = snd (disable w0 (Ref 2) (Ref 5) s2)"

text \<open>
  The geometry the canvas service returns: top 5, left 7, canvas top 10, element top 20
  and element height 30. \<open>g1\<close> is the module after \<open>init(opts)\<close>, once that object exists
  (at address 10); in \<open>c1\<close> the host has moreover created an editor of its own (at address
  11) and set it as \<open>customRte\<close>.
\<close>

definition geometry :: obj where
  "geometry =
     \<lparr>props = [''top'' \<mapsto> Num 0x4014000000000000, ''left'' \<mapsto> Num 0x401C000000000000,
               ''canvasTop'' \<mapsto> Num 0x4024000000000000,
               ''elementTop'' \<mapsto> Num 0x4034000000000000,
               ''elementHeight'' \<mapsto> Num 0x403E000000000000],
      kind = Plain\<rparr>"

definition g1 :: state where
  "g1 = exec w0 (Create geometry) s1"

definition c1 :: state where
  "c1 = run w0 [Create \<lparr>props = Map.empty, kind = Plain\<rparr>, SetCustomRte (Ref 11)] g1"

text \<open>\<open>g1\<close> after \<open>enable(view)\<close>.\<close>

definition g2 :: state where
  "g2 = snd (enable w0 (Ref 2) Undefined g1)"

text \<open>Options with a prefix that is not a string: \<open>{pStylePrefix: true, stylePrefix:
  null}\<close>, and the module created next to them.\<close>

definition n0 :: state where
  "n0 = module_exports w0
          [\<lparr>props = [''pStylePrefix'' \<mapsto> Bool True, ''stylePrefix'' \<mapsto> Null], kind = Plain\<rparr>] []"

section \<open>Properties\<close>

subsection \<open>The outcomes of the helpers\<close>

lemma is_object_Ref [simp]: "is_object (Ref a)"
  by (simp add: is_object_def)

lemma is_object_simps [simp]:
  "\<not> is_object Undefined" "\<not> is_object Null" "\<not> is_object (Bool b)"
  "\<not> is_object (Num n)" "\<not> is_object (Str s)"
  by (simp_all add: is_object_def)


lemma elems_SomeD:
  "elems h v = Some xs \<Longrightarrow> \<exists>b. v = Ref b \<and> b < length h \<and> kind (h ! b) = Array xs"
  by (auto simp: elems_def lookup_def split: val.splits option.splits kind.splits if_splits)

subsection \<open>Numbers, orders and operators at work\<close>

lemmas number_defs = number_le_def is_nan_def is_zero_def ordinal_def magnitude_def

lemma number_le_refl: "number_le a a \<longleftrightarrow> \<not> is_nan a"
  by (simp add: number_le_def)

lemma number_le_examples:
  "number_le 0x4014000000000000 0x4024000000000000"
  "number_le 0x4024000000000000 0x4024000000000000"
  "\<not> number_le 0x4024000000000000 0x4014000000000000"
  "number_le 0xC024000000000000 0x4014000000000000"
  "\<not> number_le 0x4014000000000000 0xC024000000000000"
  "\<not> number_le 0xC014000000000000 0xC024000000000000"
  "number_le 0x3FE0000000000000 0x3FF0000000000000"
  "number_le 0x8000000000000000 0" "number_le 0 0x8000000000000000"
  "number_le 0x4014000000000000 0x7FF0000000000000"
  "number_le 0xFFF0000000000000 0xC024000000000000"
  "\<not> number_le 0x7FF8000000000000 0x7FF8000000000000"
  "\<not> number_le 0x7FF8000000000000 0x4014000000000000"
  "\<not> number_le 0x4014000000000000 0xFFF8000000000001"
  by (simp_all add: number_defs)

lemma truthy_examples:
  "\<not> truthy (Num 0)" "\<not> truthy (Num 0x8000000000000000)"
  "\<not> truthy (Num 0x7FF8000000000000)" "\<not> truthy (Num 0xFFF0000000000001)"
  "truthy (Num 0x3FF0000000000000)" "truthy (Num 0xBFE0000000000000)"
  "truthy (Num 0x7FF0000000000000)" "truthy (Num 1)"
  "\<not> truthy (Str [])" "truthy (Str ''0'')" "\<not> truthy Undefined" "\<not> truthy Null"
  by (simp_all add: truthy_def number_defs)

lemma string_le_examples:
  "string_le ''10px'' ''9px''" "\<not> string_le ''9px'' ''10px''"
  "string_le ''a'' ''ab''" "\<not> string_le ''ab'' ''a''" "string_le ''abc'' ''abc''"
  "string_le ''Z'' ''a''" "\<not> string_le ''a'' ''Z''"
  by simp_all

lemma js_le_examples:
  "\<not> js_le w Undefined Undefined" "js_le w Null (Bool False)" "js_le w (Bool False) (Bool True)"
  "\<not> js_le w (Bool True) Null" "js_le w (Str ''10'') (Str ''9'')"
  "js_le w (Num a) (Num b) = number_le a b"
  by (simp_all add: js_le_def is_text_def to_number_def to_string_def number_defs)

lemma js_add_examples:
  "js_add w (Str ''gjs-'') (Str ''rte-'') = Str ''gjs-rte-''"
  "js_add w (Str ''gjs-'') Undefined = Str ''gjs-undefined''"
  "js_add w (Bool True) (Str ''x'') = Str ''truex''"
  "js_add w (Num a) (Num b) = Num (number_add w a b)"
  "js_add w (Num a) (Str s) = Str (number_to_string w a @ s)"
  "js_add w (Bool True) Null = Num (number_add w 0x3FF0000000000000 0)"
  by (simp_all add: js_add_def is_text_def to_number_def to_string_def)

subsection \<open>Ordinary properties\<close>

lemma intercepted_simps [simp]:
  "\<not> intercepted K ''name''" "\<not> intercepted K ''top''" "\<not> intercepted K ''stylePrefix''"
  by (cases K; simp add: digits_def)+

lemma ordinary_simps [simp]:
  "ordinary h v ''name''" "ordinary h v ''top''" "ordinary h v ''stylePrefix''"
  by (simp_all add: ordinary_def split: val.splits option.splits)

lemma set_prop_ordinary:
  "a < length h \<Longrightarrow> \<not> intercepted (kind (h ! a)) k \<Longrightarrow>
   set_prop w h (Ref a) k x = Inr (h[a := (h ! a)\<lparr>props := (props (h ! a))(k \<mapsto> x)\<rparr>])"
  by (simp add: set_prop_def lookup_def)

lemma set_prop_SomeD:
  "set_prop w h v k x = Inr h' \<Longrightarrow> ordinary h v k \<Longrightarrow>
   \<exists>a. v = Ref a \<and>
     (if a < length h then h' = h[a := (h ! a)\<lparr>props := (props (h ! a))(k \<mapsto> x)\<rparr>]
      else h' = h)"
  by (auto simp: set_prop_def ordinary_def lookup_def split: val.splits if_splits)

lemma to_string_px [simp]: "to_string w (js_add w t (Str s)) = to_string w t @ s"
  by (simp add: js_add_def is_text_def to_string_def)

subsection \<open>What add does to the store\<close>

lemma add_Ref:
  assumes "actions st = Ref b" "b < length (heap st)" "kind (heap st ! b) = Array xs"
    and "a < length (heap st)"
  shows "add w name (Ref a) st =
     (Inr Undefined,
      st\<lparr>heap := (if a = b
          then (heap st)[b := (heap st ! b)\<lparr>props := (props (heap st ! b))(''name'' \<mapsto> name),
                   kind := Array (xs @ [Ref b])\<rparr>]
          else (heap st)[a := (heap st ! a)\<lparr>props := (props (heap st ! a))(''name'' \<mapsto> name)\<rparr>,
                 b := (heap st ! b)\<lparr>kind := Array (xs @ [Ref a])\<rparr>])\<rparr>)"
  using assms
  apply (simp add: add_def Let_def set_prop_ordinary)
  apply (simp add: array_push_def lookup_def)
  done

lemma add_Undefined:
  assumes "actions st = Ref b" "b < length (heap st)" "kind (heap st ! b) = Array xs"
  shows "add w name Undefined st =
     (Inr Undefined,
      st\<lparr>heap := (heap st)[b := (heap st ! b)\<lparr>kind := Array (xs @ [Ref (length (heap st))])\<rparr>]
           @ [(new_object w)\<lparr>props := (props (new_object w))(''name'' \<mapsto> name)\<rparr>]\<rparr>)"
  using assms
  apply (simp add: add_def Let_def set_prop_def lookup_def alloc_def fresh_def new_object_def)
  apply (simp add: array_push_def lookup_def nth_append)
  apply (simp add: list_update_append)
  done

subsection \<open>What writing a style does to the store\<close>

lemma element_of_SomeD:
  "element_of h v = Some e \<Longrightarrow> \<exists>a. v = Ref a \<and> a < length h \<and> kind (h ! a) = Element e"
  by (auto simp: element_of_def lookup_def split: val.splits option.splits kind.splits if_splits)

lemma set_style_SomeD:
  "set_style h v k s = Inr h' \<Longrightarrow>
   \<exists>a e. v = Ref a \<and> a < length h \<and> kind (h ! a) = Element e \<and>
     h' = h[a := (h ! a)\<lparr>kind := Element (e\<lparr>style := (style e)(k := s)\<rparr>)\<rparr>]"
  by (auto simp: set_style_def lookup_def split: val.splits option.splits kind.splits if_splits)

lemma set_style_Ref:
  "a < length h \<Longrightarrow> kind (h ! a) = Element e \<Longrightarrow>
   set_style h (Ref a) k s =
     Inr (h[a := (h ! a)\<lparr>kind := Element (e\<lparr>style := (style e)(k := s)\<rparr>)\<rparr>])"
  by (simp add: set_style_def lookup_def)

lemma set_style_get_prop:
  "set_style h v k s = Inr h' \<Longrightarrow> get_prop h' x p = get_prop h x p"
  by (auto simp: get_prop_def lookup_def nth_list_update split: val.splits dest!: set_style_SomeD)

lemma set_style_elems:
  "set_style h v k s = Inr h' \<Longrightarrow> elems h' x = elems h x"
  by (auto simp: elems_def lookup_def nth_list_update split: val.splits dest!: set_style_SomeD)

lemma set_style_element_of_other:
  "set_style h v k s = Inr h' \<Longrightarrow> x \<noteq> v \<Longrightarrow> element_of h' x = element_of h x"
  by (auto simp: element_of_def lookup_def nth_list_update split: val.splits if_splits
      dest!: set_style_SomeD)


subsection \<open>The loop of init\<close>

lemma defaults_at_map_of:
  "name \<in> fst ` set (defaults w) \<Longrightarrow> map_of (defaults w) name = Some (defaults_at w name)"
  by (auto simp: defaults_at_def map_of_eq_None_iff split: option.splits)

lemma copy_defaults_Ref:
  assumes "a < length h" and "set names \<subseteq> fst ` set (defaults w)"
    and "\<forall>k\<in>set names. \<not> intercepted (kind (h ! a)) k"
  shows "copy_defaults w names (Ref a) h =
     Inr (h[a := (h ! a)\<lparr>props :=
        (\<lambda>k. case props (h ! a) k of
                Some v \<Rightarrow> Some v
              | None \<Rightarrow> if k \<in> set names then map_of (defaults w) k else None)\<rparr>])"
  using assms
proof (induction names arbitrary: h)
  case Nil
  have "(\<lambda>k. case props (h ! a) k of
                Some v \<Rightarrow> Some v
              | None \<Rightarrow> if k \<in> set [] then map_of (defaults w) k else None) = props (h ! a)"
    by (auto simp: fun_eq_iff split: option.splits)
  then show ?case by (simp only: copy_defaults.simps) simp
next
  case (Cons name names)
  from Cons.prems have d: "map_of (defaults w) name = Some (defaults_at w name)"
    by (simp add: defaults_at_map_of)
  show ?case
  proof (cases "props (h ! a) name")
    case None
    let ?h1 = "h[a := (h ! a)\<lparr>props := (props (h ! a))(name \<mapsto> defaults_at w name)\<rparr>]"
    have "copy_defaults w (name # names) (Ref a) h = copy_defaults w names (Ref a) ?h1"
      using Cons.prems None by (simp add: has_prop_def set_prop_def lookup_def)
    also have "\<dots> = Inr (?h1[a := (?h1 ! a)\<lparr>props :=
        (\<lambda>k. case props (?h1 ! a) k of
                Some v \<Rightarrow> Some v
              | None \<Rightarrow> if k \<in> set names then map_of (defaults w) k else None)\<rparr>])"
      using Cons.prems by (intro Cons.IH) simp_all
    also have "\<dots> = Inr (h[a := (h ! a)\<lparr>props :=
        (\<lambda>k. case props (h ! a) k of
                Some v \<Rightarrow> Some v
              | None \<Rightarrow> if k \<in> set (name # names) then map_of (defaults w) k else None)\<rparr>])"
    proof -
      have p1: "props (?h1 ! a) = (props (h ! a))(name \<mapsto> defaults_at w name)"
        using Cons.prems by simp
      have g: "?h1[a := (?h1 ! a)\<lparr>props := F\<rparr>] = h[a := (h ! a)\<lparr>props := F\<rparr>]" for F
        using Cons.prems by simp
      have f: "(\<lambda>k. case ((props (h ! a))(name \<mapsto> defaults_at w name)) k of
                Some v \<Rightarrow> Some v
              | None \<Rightarrow> if k \<in> set names then map_of (defaults w) k else None) =
            (\<lambda>k. case props (h ! a) k of
                Some v \<Rightarrow> Some v
              | None \<Rightarrow> if k \<in> set (name # names) then map_of (defaults w) k else None)"
        using None d by (auto simp: fun_eq_iff split: option.splits)
      show ?thesis
        by (simp only: p1 g f)
    qed
    finally show ?thesis .
  next
    case (Some v)
    have "copy_defaults w (name # names) (Ref a) h = copy_defaults w names (Ref a) h"
      using Cons.prems Some by (simp add: has_prop_def lookup_def)
    also have "\<dots> = Inr (h[a := (h ! a)\<lparr>props :=
        (\<lambda>k. case props (h ! a) k of
                Some v \<Rightarrow> Some v
              | None \<Rightarrow> if k \<in> set names then map_of (defaults w) k else None)\<rparr>])"
      using Cons.prems by (intro Cons.IH) simp_all
    also have "\<dots> = Inr (h[a := (h ! a)\<lparr>props :=
        (\<lambda>k. case props (h ! a) k of
                Some v \<Rightarrow> Some v
              | None \<Rightarrow> if k \<in> set (name # names) then map_of (defaults w) k else None)\<rparr>])"
    proof -
      have f: "(\<lambda>k. case props (h ! a) k of
                Some v \<Rightarrow> Some v
              | None \<Rightarrow> if k \<in> set names then map_of (defaults w) k else None) =
            (\<lambda>k. case props (h ! a) k of
                Some v \<Rightarrow> Some v
              | None \<Rightarrow> if k \<in> set (name # names) then map_of (defaults w) k else None)"
        using Some by (auto simp: fun_eq_iff split: option.splits)
      show ?thesis
        by (simp only: f)
    qed
    finally show ?thesis .
  qed
qed

lemma copy_defaults_all:
  assumes "a < length h"
    and "\<forall>k\<in>set (map fst (defaults w)). \<not> intercepted (kind (h ! a)) k"
  shows "copy_defaults w (map fst (defaults w)) (Ref a) h =
     Inr (h[a := (h ! a)\<lparr>props := map_of (defaults w) ++ props (h ! a)\<rparr>])"
proof -
  have "(\<lambda>k. case props (h ! a) k of
                Some v \<Rightarrow> Some v
              | None \<Rightarrow> if k \<in> set (map fst (defaults w)) then map_of (defaults w) k else None)
        = map_of (defaults w) ++ props (h ! a)"
  proof -
    have "map_of (defaults w) k = None" if "k \<notin> fst ` set (defaults w)" for k
      using that by (simp add: map_of_eq_None_iff)
    then show ?thesis
      by (auto simp: fun_eq_iff map_add_def split: option.splits)
  qed
  with copy_defaults_Ref [OF assms(1) _ assms(2)] show ?thesis
    by simp
qed

subsection \<open>The variables an operation leaves alone\<close>

lemma udpatePosition_vars:
  "toolbar (snd (udpatePosition w st)) = toolbar st \<and>
   lastEl (snd (udpatePosition w st)) = lastEl st \<and>
   config (snd (udpatePosition w st)) = config st \<and>
   listeners (snd (udpatePosition w st)) = listeners st \<and>
   customRte (snd (udpatePosition w st)) = customRte st"
  by (simp add: udpatePosition_def place_def call_method_def Let_def split: sum.splits)

lemma postRender_vars:
  "toolbar (snd (postRender w ev st)) = toolbar st \<and>
   lastEl (snd (postRender w ev st)) = lastEl st \<and>
   config (snd (postRender w ev st)) = config st \<and>
   listeners (snd (postRender w ev st)) = listeners st"
  by (simp add: postRender_def call_method_def Let_def split: sum.splits)

lemma add_vars:
  "toolbar (snd (add w name opts st)) = toolbar st \<and>
   lastEl (snd (add w name opts st)) = lastEl st \<and>
   config (snd (add w name opts st)) = config st \<and>
   listeners (snd (add w name opts st)) = listeners st"
  by (simp add: add_def Let_def split: sum.splits)

lemma get_vars:
  "toolbar (snd (get w c st)) = toolbar st \<and>
   lastEl (snd (get w c st)) = lastEl st \<and>
   config (snd (get w c st)) = config st \<and>
   listeners (snd (get w c st)) = listeners st \<and>
   heap (snd (get w c st)) = heap st"
  by (simp add: get_def call_method_def Let_def split: option.splits sum.splits)

lemma getAll_vars: "snd (getAll w st) = st"
  by (simp add: getAll_def split: option.splits)

lemma disable_vars:
  "toolbar (snd (disable w view rte st)) = toolbar st \<and>
   lastEl (snd (disable w view rte st)) = lastEl st \<and>
   config (snd (disable w view rte st)) = config st \<and>
   listeners (snd (disable w view rte st)) = listeners st"
  by (simp add: disable_def call_method_def Let_def split: sum.splits)

lemma enable_vars:
  "toolbar (snd (enable w view rte st)) = toolbar st \<and>
   config (snd (enable w view rte st)) = config st"
  by (simp add: enable_def enable_rte_def subscribe_def call_method_def Let_def
      split: sum.splits)

lemma init_vars:
  "lastEl (snd (init w opts st)) = lastEl st \<and>
   listeners (snd (init w opts st)) = listeners st"
  by (simp add: init_def init_rest_def Let_def split: sum.splits)

lemma run_handlers_vars:
  "toolbar (snd (run_handlers w hs em name st)) = toolbar st \<and>
   lastEl (snd (run_handlers w hs em name st)) = lastEl st \<and>
   config (snd (run_handlers w hs em name st)) = config st \<and>
   listeners (snd (run_handlers w hs em name st)) = listeners st"
proof (induction hs arbitrary: st)
  case Nil
  show ?case by simp
next
  case (Cons h hs)
  show ?case
  proof (cases h)
    case UdpatePosition
    show ?thesis
    proof (cases "udpatePosition w st")
      case (Pair x st1)
      with udpatePosition_vars [of w st] Cons [of st1] UdpatePosition show ?thesis
        by (cases x) simp_all
    qed
  next
    case (Foreign k)
    with Cons [of "st\<lparr>calls := calls st @ [ForeignHandler k em name]\<rparr>"] show ?thesis
      by simp
  qed
qed

lemma run_timeout_vars:
  "toolbar (snd (run_timeout w st)) = toolbar st \<and>
   lastEl (snd (run_timeout w st)) = lastEl st \<and>
   config (snd (run_timeout w st)) = config st \<and>
   listeners (snd (run_timeout w st)) = listeners st"
  by (simp add: run_timeout_def udpatePosition_vars split: list.splits handler.splits)

lemma exec_toolbar: "\<not> is_Init x \<Longrightarrow> toolbar (exec w x st) = toolbar st"
  by (cases x)
    (simp_all add: postRender_vars add_vars get_vars getAll_vars udpatePosition_vars
      enable_vars disable_vars getToolbarEl_def trigger_def run_handlers_vars run_timeout_vars
      split: sum.splits)

lemma exec_lastEl: "\<not> is_Enable x \<Longrightarrow> lastEl (exec w x st) = lastEl st"
  by (cases x)
    (simp_all add: init_vars postRender_vars add_vars get_vars getAll_vars udpatePosition_vars
      disable_vars getToolbarEl_def trigger_def run_handlers_vars run_timeout_vars
      split: sum.splits)

lemma run_toolbar: "\<forall>x\<in>set xs. \<not> is_Init x \<Longrightarrow> toolbar (run w xs st) = toolbar st"
  by (induction xs arbitrary: st) (simp_all add: exec_toolbar del: exec.simps)

lemma run_lastEl: "\<forall>x\<in>set xs. \<not> is_Enable x \<Longrightarrow> lastEl (run w xs st) = lastEl st"
  by (induction xs arbitrary: st) (simp_all add: exec_lastEl del: exec.simps)

subsection \<open>Elements stay elements\<close>

lemma skeleton_update:
  "a < length h \<Longrightarrow>
   (case kind ob of Element e \<Rightarrow> Some (className e) | _ \<Rightarrow> None) =
   (case kind (h ! a) of Element e \<Rightarrow> Some (className e) | _ \<Rightarrow> None) \<Longrightarrow>
   skeleton (h[a := ob]) = skeleton h"
  by (simp add: skeleton_def map_update list_update_same_conv)

lemma skeleton_set_style: "set_style h v k s = Inr h' \<Longrightarrow> skeleton h' = skeleton h"
  by (auto simp: set_style_def lookup_def skeleton_update
      split: val.splits option.splits kind.splits if_splits)

lemma skeleton_set_prop:
  "set_prop w h v k x = Inr h' \<Longrightarrow> ordinary h v k \<Longrightarrow> skeleton h' = skeleton h"
  by (auto simp: skeleton_update split: if_splits dest!: set_prop_SomeD)

lemma skeleton_adjust: "adjust w adj pos h = Inr h' \<Longrightarrow> skeleton h' = skeleton h"
  by (auto simp: adjust_def split: sum.splits if_splits dest!: skeleton_set_prop)

lemma place_skeleton: "skeleton (heap (snd (place w pos st))) = skeleton (heap st)"
  by (auto simp: place_def split: sum.splits dest!: skeleton_set_style)

lemma skeleton_array_push: "array_push h v x = Inr h' \<Longrightarrow> skeleton h' = skeleton h"
  by (auto simp: array_push_def lookup_def skeleton_update
      split: val.splits option.splits kind.splits if_splits)

lemma skeleton_appendChild: "appendChild h p v = Inr h' \<Longrightarrow> skeleton h' = skeleton h"
  by (auto simp: appendChild_def lookup_def skeleton_update
      split: val.splits option.splits kind.splits if_splits)

lemma skeleton_alloc: "skeleton (alloc h ob) = skeleton h @ skeleton [ob]"
  by (simp add: skeleton_def alloc_def)

lemma udpatePosition_skeleton:
  "skeleton (heap (snd (udpatePosition w st))) = skeleton (heap st)"
  by (auto simp: udpatePosition_def call_method_def place_skeleton split: sum.splits
      dest!: skeleton_adjust)

lemma disable_skeleton:
  "skeleton (heap (snd (disable w view rte st))) = skeleton (heap st)"
  by (auto simp: disable_def call_method_def Let_def split: sum.splits
      dest!: skeleton_set_style)

lemma postRender_skeleton:
  "skeleton (heap (snd (postRender w ev st))) = skeleton (heap st)"
  by (auto simp: postRender_def call_method_def Let_def split: sum.splits
      dest!: skeleton_set_style skeleton_appendChild)

lemma enable_skeleton:
  "skeleton (heap (snd (enable w view rte st))) = skeleton (heap st)"
  by (auto simp: enable_def enable_rte_def subscribe_def call_method_def Let_def
      split: sum.splits dest!: skeleton_set_style)

lemma add_skeleton:
  "prefix (skeleton (heap st)) (skeleton (heap (snd (add w name opts st))))"
  by (auto simp: add_def Let_def skeleton_alloc split: sum.splits
     dest!: skeleton_set_prop skeleton_array_push)

lemma run_handlers_skeleton:
  "skeleton (heap (snd (run_handlers w hs em name st))) = skeleton (heap st)"
proof (induction hs arbitrary: st)
  case Nil
  show ?case by simp
next
  case (Cons h hs)
  show ?case
  proof (cases h)
    case UdpatePosition
    show ?thesis
    proof (cases "udpatePosition w st")
      case (Pair x st1)
      with udpatePosition_skeleton [of w st] Cons [of st1] UdpatePosition show ?thesis
        by (cases x) simp_all
    qed
  next
    case (Foreign k)
    with Cons [of "st\<lparr>calls := calls st @ [ForeignHandler k em name]\<rparr>"] show ?thesis
      by simp
  qed
qed

lemma run_timeout_skeleton:
  "skeleton (heap (snd (run_timeout w st))) = skeleton (heap st)"
  by (simp add: run_timeout_def udpatePosition_skeleton split: list.splits handler.splits)

subsection \<open>Runs\<close>

lemma exec_skeleton:
  "\<not> is_Init x \<Longrightarrow> prefix (skeleton (heap st)) (skeleton (heap (exec w x st)))"
  by (cases x)
    (auto simp: postRender_skeleton add_skeleton get_vars getAll_vars udpatePosition_skeleton
      enable_skeleton disable_skeleton getToolbarEl_def trigger_def run_handlers_skeleton
      run_timeout_skeleton skeleton_alloc split: sum.splits dest!: skeleton_set_prop)

lemma run_skeleton:
  "\<forall>x\<in>set xs. \<not> is_Init x \<Longrightarrow> prefix (skeleton (heap st)) (skeleton (heap (run w xs st)))"
proof (induction xs arbitrary: st)
  case Nil
  show ?case by simp
next
  case (Cons x xs)
  then have "prefix (skeleton (heap st)) (skeleton (heap (exec w x st)))"
    by (simp add: exec_skeleton del: exec.simps)
  moreover from Cons have
    "prefix (skeleton (heap (exec w x st))) (skeleton (heap (run w xs (exec w x st))))"
    by simp
  ultimately show ?case
    by (simp del: exec.simps)
qed

lemma skeleton_element_of:
  assumes "prefix (skeleton h) (skeleton h')" and "element_of h v = Some e"
  shows "\<exists>e'. element_of h' v = Some e' \<and> className e' = className e"
proof -
  from assms(2) obtain a where a: "v = Ref a" "a < length h" "kind (h ! a) = Element e"
    using element_of_SomeD by blast
  from assms(1) obtain zs where zs: "skeleton h' = skeleton h @ zs"
    by (auto simp: prefix_def)
  then have len: "a < length h'"
    using a(2) by (metis length_append length_map skeleton_def trans_less_add1)
  from zs a have "skeleton h' ! a = Some (className e)"
    by (simp add: nth_append skeleton_def)
  with len have "(case kind (h' ! a) of Element e \<Rightarrow> Some (className e) | _ \<Rightarrow> None) =
      Some (className e)"
    by (simp add: skeleton_def)
  with a len show ?thesis
    by (auto simp: element_of_def lookup_def split: kind.splits)
qed

lemma set_prop_length: "set_prop w h v k x = Inr h' \<Longrightarrow> length h' = length h"
  by (auto simp: set_prop_def lookup_def split: val.splits option.splits sum.splits if_splits)

lemma copy_defaults_length:
  "copy_defaults w names cfg h = Inr h' \<Longrightarrow> length h' = length h"
  by (induction names arbitrary: h)
     (auto split: sum.splits bool.splits dest!: set_prop_length)

lemma init_rest_toolbar:
  assumes "init_rest w ppfx s = (Inr u, st1)"
  shows "toolbar st1 = Ref (length (heap st1) - 1) \<and> length (heap s) < length (heap st1) \<and>
         element_of (heap st1) (toolbar st1) =
           Some \<lparr>className = to_string w ppfx @ ''rte-toolbar'', style = (\<lambda>k. []), parent = Null\<rparr>"
proof -
  from assms obtain h2 where h2: "length h2 = length (heap s)" and
    st1: "st1 = s\<lparr>heap := set_className
              (alloc (if truthy (case get_prop h2 (config s) ''actions'' of Inr x \<Rightarrow> x | Inl e \<Rightarrow> Undefined)
                      then h2 else alloc h2 new_array) new_div)
              (fresh (if truthy (case get_prop h2 (config s) ''actions'' of Inr x \<Rightarrow> x | Inl e \<Rightarrow> Undefined)
                      then h2 else alloc h2 new_array))
              (to_string w ppfx @ ''rte-toolbar''),
           pfx := pfx st1, actions := actions st1,
           toolbar := fresh (if truthy (case get_prop h2 (config s) ''actions'' of Inr x \<Rightarrow> x | Inl e \<Rightarrow> Undefined)
                      then h2 else alloc h2 new_array),
           calls := calls st1\<rparr>"
    by (auto simp: init_rest_def Let_def split: sum.splits if_splits dest!: set_prop_length)
  show ?thesis
    by (subst (1 2 3 4 5) st1)
       (simp add: h2 alloc_def fresh_def set_className_def new_div_def element_of_def lookup_def
          nth_append)
qed

lemma init_toolbar:
  assumes "init w opts st = (Inr u, st1)"
  shows "toolbar st1 = Ref (length (heap st1) - 1) \<and> length (heap st) < length (heap st1) \<and>
         (\<exists>e. element_of (heap st1) (toolbar st1) = Some e \<and> style e = (\<lambda>k. []) \<and>
              parent e = Null)"
proof -
  let ?h0 = "if opts = Undefined then alloc (heap st) (new_object w) else heap st"
  let ?cfg = "if opts = Undefined then fresh (heap st) else opts"
  obtain r where c: "copy_defaults w (map fst (defaults w)) ?cfg ?h0 = r"
    by simp
  show ?thesis
  proof (cases r)
    case (Inl e)
    with c assms show ?thesis
      by (simp add: init_def Let_def)
  next
    case (Inr h1)
    note h1 = this
    from copy_defaults_length [OF c [unfolded h1]] have len: "length (heap st) \<le> length h1"
      by (simp add: alloc_def split: if_splits)
    show ?thesis
    proof (cases "get_prop h1 ?cfg ''pStylePrefix''")
      case (Inl e)
      with c h1 assms show ?thesis
        by (simp add: init_def Let_def)
    next
      case (Inr ppfx)
      with c h1 assms have "init_rest w ppfx (st\<lparr>heap := h1, config := ?cfg\<rparr>) = (Inr u, st1)"
        by (simp add: init_def Let_def)
      from init_rest_toolbar [OF this] len show ?thesis
        by auto
    qed
  qed
qed

lemma enable_lastEl:
  "enable w view rte st = (Inr r, st1) \<Longrightarrow> get_prop (heap st) view ''el'' = Inr (lastEl st1)"
  by (auto simp: enable_def enable_rte_def subscribe_def call_method_def Let_def
      split: sum.splits if_splits)

lemma udpatePosition_calls:
  "udpatePosition w s = (Inr u, s') \<Longrightarrow>
   \<exists>m c. calls s' = calls s @ [ModelGet m ''Canvas'',
            GetTargetToElementDim c (toolbar s) (lastEl s) ''rteToolbarPosUpdate'']"
  by (auto simp: udpatePosition_def place_def call_method_def Let_def
      split: sum.splits if_splits)

subsection \<open>Subscriptions\<close>










subsection \<open>When a position update returns\<close>


lemma get_prop_Inr_any: "get_prop h v k = Inr x \<Longrightarrow> \<exists>y. get_prop h v k' = Inr y"
  by (cases v) (auto simp: get_prop_def split: option.splits)






subsection \<open>Firing an event\<close>






subsection \<open>When enable returns\<close>

lemma set_style_get_prop_fun: "set_style h v k s = Inr h' \<Longrightarrow> get_prop h' = get_prop h"
  by (intro ext) (rule set_style_get_prop)






subsection \<open>The concrete editor, evaluated\<close>

lemmas eval_defs = module_exports_def init_def init_rest_def alloc_def fresh_def new_object_def
  new_array_def new_div_def has_prop_def set_prop_def get_prop_def lookup_def truthy_def
  js_add_def is_text_def to_string_def set_className_def defaults_at_def Let_def
  set_style_def call_method_def returns0_def element_of_def elems_def

lemma s1_eq: "s1 =
  \<lparr>heap =
     [\<lparr>props = [''pStylePrefix'' \<mapsto> Str ''gjs-'', ''em'' \<mapsto> Ref 1,
                ''adjustToolbar'' \<mapsto> Num 0x3FF0000000000000, ''stylePrefix'' \<mapsto> Str ''gjs-rte-''],
        kind = Plain\<rparr>,
      \<lparr>props = Map.empty, kind = Plain\<rparr>,
      \<lparr>props = [''el'' \<mapsto> Ref 3], kind = Plain\<rparr>,
      \<lparr>props = Map.empty, kind = Plain\<rparr>,
      \<lparr>props = Map.empty, kind = Plain\<rparr>,
      \<lparr>props = Map.empty, kind = Plain\<rparr>,
      \<lparr>props = [''title'' \<mapsto> Str ''Bold''], kind = Plain\<rparr>,
      \<lparr>props = Map.empty, kind = Plain\<rparr>,
      \<lparr>props = Map.empty, kind = Array []\<rparr>,
      \<lparr>props = Map.empty,
        kind = Element \<lparr>className = ''gjs-rte-toolbar'', style = \<lambda>k. [], parent = Null\<rparr>\<rparr>],
   config = Ref 0, toolbar = Ref 9, actions = Ref 8, lastEl = Undefined, customRte = Null,
   pfx = Str ''gjs-rte-'', actionbar = Undefined, listeners = [], timeouts = [],
   calls = [MixinsOn (Ref 9) ''mousedown'']\<rparr>"
  by (simp add: s1_def s0_def h0_def w0_def eval_defs)

lemma enable_s1: "enable w0 (Ref 2) Undefined s1 =
  (Inr (Ref 5),
   \<lparr>heap =
     [\<lparr>props = [''pStylePrefix'' \<mapsto> Str ''gjs-'', ''em'' \<mapsto> Ref 1,
                ''adjustToolbar'' \<mapsto> Num 0x3FF0000000000000, ''stylePrefix'' \<mapsto> Str ''gjs-rte-''],
        kind = Plain\<rparr>,
      \<lparr>props = Map.empty, kind = Plain\<rparr>,
      \<lparr>props = [''el'' \<mapsto> Ref 3], kind = Plain\<rparr>,
      \<lparr>props = Map.empty, kind = Plain\<rparr>,
      \<lparr>props = Map.empty, kind = Plain\<rparr>,
      \<lparr>props = Map.empty, kind = Plain\<rparr>,
      \<lparr>props = [''title'' \<mapsto> Str ''Bold''], kind = Plain\<rparr>,
      \<lparr>props = Map.empty, kind = Plain\<rparr>,
      \<lparr>props = Map.empty, kind = Array []\<rparr>,
      \<lparr>props = Map.empty,
        kind = Element \<lparr>className = ''gjs-rte-toolbar'', style = (\<lambda>k. [])(''display'' := []), parent = Null\<rparr>\<rparr>],
   config = Ref 0, toolbar = Ref 9, actions = Ref 8, lastEl = Ref 3, customRte = Null,
   pfx = Str ''gjs-rte-'', actionbar = Undefined,
   listeners = [(Ref 1, ''change:canvasOffset'', UdpatePosition),
                (Ref 1, ''canvasScroll'', UdpatePosition)],
   timeouts = [UdpatePosition],
   calls = [MixinsOn (Ref 9) ''mousedown'', GetChildrenContainer (Ref 2),
            NewRichTextEditorEnable (Ref 3) (Ref 9) ''gjs-rte-actionbar'' ''gjs-rte-action''
              Undefined]\<rparr>)"
  by (simp add: s1_eq w0_def enable_def enable_rte_def subscribe_def em_on_def em_off_def
      event_def eval_defs)

lemma disable_s2: "disable w0 (Ref 2) (Ref 5) s2 =
  (Inr Undefined,
   \<lparr>heap =
     [\<lparr>props = [''pStylePrefix'' \<mapsto> Str ''gjs-'', ''em'' \<mapsto> Ref 1,
                ''adjustToolbar'' \<mapsto> Num 0x3FF0000000000000, ''stylePrefix'' \<mapsto> Str ''gjs-rte-''],
        kind = Plain\<rparr>,
      \<lparr>props = Map.empty, kind = Plain\<rparr>,
      \<lparr>props = [''el'' \<mapsto> Ref 3], kind = Plain\<rparr>,
      \<lparr>props = Map.empty, kind = Plain\<rparr>,
      \<lparr>props = Map.empty, kind = Plain\<rparr>,
      \<lparr>props = Map.empty, kind = Plain\<rparr>,
      \<lparr>props = [''title'' \<mapsto> Str ''Bold''], kind = Plain\<rparr>,
      \<lparr>props = Map.empty, kind = Plain\<rparr>,
      \<lparr>props = Map.empty, kind = Array []\<rparr>,
      \<lparr>props = Map.empty,
        kind = Element \<lparr>className = ''gjs-rte-toolbar'',
                        style = (\<lambda>k. [])(''display'' := ''none''), parent = Null\<rparr>\<rparr>],
   config = Ref 0, toolbar = Ref 9, actions = Ref 8, lastEl = Ref 3, customRte = Null,
   pfx = Str ''gjs-rte-'', actionbar = Undefined,
   listeners = [(Ref 1, ''change:canvasOffset'', UdpatePosition),
                (Ref 1, ''canvasScroll'', UdpatePosition)],
   timeouts = [UdpatePosition],
   calls = [MixinsOn (Ref 9) ''mousedown'', GetChildrenContainer (Ref 2),
            NewRichTextEditorEnable (Ref 3) (Ref 9) ''gjs-rte-actionbar'' ''gjs-rte-action''
              Undefined,
            GetChildrenContainer (Ref 2), RteDisable (Ref 5)]\<rparr>)"
  apply (simp add: s2_def enable_s1)
  apply (simp add: disable_def call_method_def w0_def returns0_def truthy_def)
  apply (simp add: set_style_def lookup_def)
  done

lemma udpatePosition_s3:
  "fst (udpatePosition w0 s3) = Inr Undefined \<and>
   calls (snd (udpatePosition w0 s3)) =
     calls s3 @ [ModelGet (Ref 1) ''Canvas'',
                 GetTargetToElementDim (Ref 4) (Ref 9) (Ref 3) ''rteToolbarPosUpdate'']"
  apply (simp add: s3_def disable_s2)
  apply (simp add: udpatePosition_def call_method_def w0_def returns0_def get_prop_def
      lookup_def)
  apply (simp add: adjust_def place_def get_prop_def set_prop_def set_style_def lookup_def Let_def)
  done

lemma g1_eq: "g1 =
  \<lparr>heap =
     [\<lparr>props = [''pStylePrefix'' \<mapsto> Str ''gjs-'', ''em'' \<mapsto> Ref 1,
                       ''adjustToolbar'' \<mapsto> Num 0x3FF0000000000000, ''stylePrefix'' \<mapsto> Str ''gjs-rte-''],
               kind = Plain\<rparr>,
      \<lparr>props = Map.empty, kind = Plain\<rparr>,
      \<lparr>props = [''el'' \<mapsto> Ref 3], kind = Plain\<rparr>,
      \<lparr>props = Map.empty, kind = Plain\<rparr>,
      \<lparr>props = Map.empty, kind = Plain\<rparr>,
      \<lparr>props = Map.empty, kind = Plain\<rparr>,
      \<lparr>props = [''title'' \<mapsto> Str ''Bold''], kind = Plain\<rparr>,
      \<lparr>props = Map.empty, kind = Plain\<rparr>,
      \<lparr>props = Map.empty, kind = Array []\<rparr>,
      \<lparr>props = Map.empty,
              kind = Element \<lparr>className = ''gjs-rte-toolbar'', style = \<lambda>k. [],
                              parent = Null\<rparr>\<rparr>,
      \<lparr>props = [''top'' \<mapsto> Num 0x4014000000000000, ''left'' \<mapsto> Num 0x401C000000000000,
                       ''canvasTop'' \<mapsto> Num 0x4024000000000000,
                       ''elementTop'' \<mapsto> Num 0x4034000000000000,
                       ''elementHeight'' \<mapsto> Num 0x403E000000000000],
               kind = Plain\<rparr>],
   config = Ref 0, toolbar = Ref 9, actions = Ref 8, lastEl = Undefined, customRte = Null,
   pfx = Str ''gjs-rte-'', actionbar = Undefined, listeners = [],
   timeouts = [],
   calls = [MixinsOn (Ref 9) ''mousedown'']\<rparr>"
  by (simp add: g1_def s1_eq alloc_def geometry_def)

lemma c1_eq: "c1 =
  \<lparr>heap =
     [\<lparr>props = [''pStylePrefix'' \<mapsto> Str ''gjs-'', ''em'' \<mapsto> Ref 1,
                       ''adjustToolbar'' \<mapsto> Num 0x3FF0000000000000, ''stylePrefix'' \<mapsto> Str ''gjs-rte-''],
               kind = Plain\<rparr>,
      \<lparr>props = Map.empty, kind = Plain\<rparr>,
      \<lparr>props = [''el'' \<mapsto> Ref 3], kind = Plain\<rparr>,
      \<lparr>props = Map.empty, kind = Plain\<rparr>,
      \<lparr>props = Map.empty, kind = Plain\<rparr>,
      \<lparr>props = Map.empty, kind = Plain\<rparr>,
      \<lparr>props = [''title'' \<mapsto> Str ''Bold''], kind = Plain\<rparr>,
      \<lparr>props = Map.empty, kind = Plain\<rparr>,
      \<lparr>props = Map.empty, kind = Array []\<rparr>,
      \<lparr>props = Map.empty,
              kind = Element \<lparr>className = ''gjs-rte-toolbar'', style = \<lambda>k. [],
                              parent = Null\<rparr>\<rparr>,
      \<lparr>props = [''top'' \<mapsto> Num 0x4014000000000000, ''left'' \<mapsto> Num 0x401C000000000000,
                       ''canvasTop'' \<mapsto> Num 0x4024000000000000,
                       ''elementTop'' \<mapsto> Num 0x4034000000000000,
                       ''elementHeight'' \<mapsto> Num 0x403E000000000000],
               kind = Plain\<rparr>,
      \<lparr>props = Map.empty, kind = Plain\<rparr>],
   config = Ref 0, toolbar = Ref 9, actions = Ref 8, lastEl = Undefined, customRte = Ref 11,
   pfx = Str ''gjs-rte-'', actionbar = Undefined, listeners = [],
   timeouts = [],
   calls = [MixinsOn (Ref 9) ''mousedown'']\<rparr>"
  by (simp add: c1_def g1_eq alloc_def)

lemma enable_g1: "enable w0 (Ref 2) Undefined g1 =
  (Inr (Ref 5),
   \<lparr>heap =
     [\<lparr>props = [''pStylePrefix'' \<mapsto> Str ''gjs-'', ''em'' \<mapsto> Ref 1,
                       ''adjustToolbar'' \<mapsto> Num 0x3FF0000000000000, ''stylePrefix'' \<mapsto> Str ''gjs-rte-''],
               kind = Plain\<rparr>,
      \<lparr>props = Map.empty, kind = Plain\<rparr>,
      \<lparr>props = [''el'' \<mapsto> Ref 3], kind = Plain\<rparr>,
      \<lparr>props = Map.empty, kind = Plain\<rparr>,
      \<lparr>props = Map.empty, kind = Plain\<rparr>,
      \<lparr>props = Map.empty, kind = Plain\<rparr>,
      \<lparr>props = [''title'' \<mapsto> Str ''Bold''], kind = Plain\<rparr>,
      \<lparr>props = Map.empty, kind = Plain\<rparr>,
      \<lparr>props = Map.empty, kind = Array []\<rparr>,
      \<lparr>props = Map.empty,
              kind = Element \<lparr>className = ''gjs-rte-toolbar'', style = (\<lambda>k. [])(''display'' := []),
                              parent = Null\<rparr>\<rparr>,
      \<lparr>props = [''top'' \<mapsto> Num 0x4014000000000000, ''left'' \<mapsto> Num 0x401C000000000000,
                       ''canvasTop'' \<mapsto> Num 0x4024000000000000,
                       ''elementTop'' \<mapsto> Num 0x4034000000000000,
                       ''elementHeight'' \<mapsto> Num 0x403E000000000000],
               kind = Plain\<rparr>],
   config = Ref 0, toolbar = Ref 9, actions = Ref 8, lastEl = Ref 3, customRte = Null,
   pfx = Str ''gjs-rte-'', actionbar = Undefined,
   listeners = [(Ref 1, ''change:canvasOffset'', UdpatePosition),
                (Ref 1, ''canvasScroll'', UdpatePosition)],
   timeouts = [UdpatePosition],
   calls = [MixinsOn (Ref 9) ''mousedown'',
            GetChildrenContainer (Ref 2),
            NewRichTextEditorEnable (Ref 3) (Ref 9) ''gjs-rte-actionbar'' ''gjs-rte-action'' Undefined]\<rparr>)"
  by (simp add: g1_eq w0_def enable_def enable_rte_def subscribe_def em_on_def em_off_def
      event_def eval_defs)






subsection \<open>A position update without geometry\<close>

lemma udpatePosition_no_geometry:
  assumes "get_prop (heap st) (config st) ''em'' = Inr (Ref m)"
    and "returns w (calls st @ [ModelGet (Ref m) ''Canvas'']) = Inr (Ref c)"
    and "returns w (calls st @ [ModelGet (Ref m) ''Canvas'',
           GetTargetToElementDim (Ref c) (toolbar st) (lastEl st) ''rteToolbarPosUpdate'']) =
         Inr pos"
    and "pos = Undefined \<or> pos = Null"
  shows "fst (udpatePosition w st) = Inl TypeError \<and>
         heap (snd (udpatePosition w st)) = heap st"
proof -
  from get_prop_Inr_any [OF assms(1)] obtain adj where
    "get_prop (heap st) (config st) ''adjustToolbar'' = Inr adj"
    by blast
  with assms show ?thesis
    by (auto simp: udpatePosition_def call_method_def adjust_def place_def get_prop_def)
qed

subsection \<open>When disable returns\<close>

lemma set_style_None: "element_of h v = None \<Longrightarrow> set_style h v k s = Inl TypeError"
  by (auto simp: set_style_def element_of_def split: val.splits option.splits kind.splits)

lemma disable_can:
  assumes "can_disable w view rte st"
  shows "\<exists>el a e. returns w (calls st @ [GetChildrenContainer view]) = Inr el \<and>
           toolbar st = Ref a \<and> a < length (heap st) \<and> kind (heap st ! a) = Element e \<and>
           disable w view rte st =
             (Inr Undefined,
              st\<lparr>calls := calls st @
                     [GetChildrenContainer view,
                      if truthy (customRte st) then CustomRteDisable (customRte st) el rte
                      else RteDisable rte],
                 heap := (heap st)[a := (heap st ! a)\<lparr>kind :=
                           Element (e\<lparr>style := (style e)(''display'' := ''none'')\<rparr>)\<rparr>]\<rparr>)"
proof -
  from assms obtain e where "element_of (heap st) (toolbar st) = Some e"
    by (auto simp: can_disable_def)
  then obtain a where a: "toolbar st = Ref a" "a < length (heap st)"
    "kind (heap st ! a) = Element e"
    using element_of_SomeD by blast
  from assms obtain el where el: "returns w (calls st @ [GetChildrenContainer view]) = Inr el"
    by (auto simp: can_disable_def split: sum.splits)
  from assms el a have "disable w view rte st =
             (Inr Undefined,
              st\<lparr>calls := calls st @
                     [GetChildrenContainer view,
                      if truthy (customRte st) then CustomRteDisable (customRte st) el rte
                      else RteDisable rte],
                 heap := (heap st)[a := (heap st ! a)\<lparr>kind :=
                           Element (e\<lparr>style := (style e)(''display'' := ''none'')\<rparr>)\<rparr>]\<rparr>)"
    by (auto simp: can_disable_def disable_def call_method_def set_style_Ref
        split: sum.splits if_splits)
  with el a show ?thesis
    by blast
qed

lemma disable_cannot:
  assumes "\<not> can_disable w view rte st"
  shows "isl (fst (disable w view rte st)) \<and> heap (snd (disable w view rte st)) = heap st"
  using assms
  by (auto simp: can_disable_def disable_def call_method_def set_style_None
      split: sum.splits if_splits)

lemma disable_frame:
  "snd (disable w view rte st) =
     st\<lparr>heap := heap (snd (disable w view rte st)), calls := calls (snd (disable w view rte st))\<rparr>"
  by (simp add: disable_def call_method_def split: sum.splits)

lemma disable_get_prop:
  "get_prop (heap (snd (disable w view rte st))) = get_prop (heap st)"
  by (auto simp: disable_def call_method_def split: sum.splits dest!: set_style_get_prop_fun)

subsection \<open>The store only grows\<close>

lemma init_length: "length (heap st) \<le> length (heap (snd (init w opts st)))"
proof (cases "init w opts st")
  case (Pair r st1)
  show ?thesis
  proof (cases r)
    case (Inr u)
    with Pair init_toolbar [of w opts st u st1] show ?thesis
      by simp
  next
    case (Inl e)
    with Pair show ?thesis
      by (auto simp: init_def init_rest_def Let_def alloc_def
          split: sum.splits if_splits dest!: copy_defaults_length set_prop_length)
  qed
qed

section \<open>The claims\<close>

text \<open>
  C2. When the actions list is an array and \<open>opts\<close> is an object (or is left out, so
  that a new object is used), \<open>add(name, opts)\<close> returns normally, the list becomes the
  old list followed by that one object, its length grows by one, every earlier entry
  stays at its index, and the \<open>name\<close> property of the new entry is the given name.
\<close>

theorem add_appends_one:
  assumes "elems (heap st) (actions st) = Some xs"
    and "opts = Undefined \<or> (\<exists>a. opts = Ref a \<and> a < length (heap st))"
  shows "let ob = (if opts = Undefined then fresh (heap st) else opts);
             st' = snd (add w name opts st)
         in fst (add w name opts st) = Inr Undefined \<and>
            actions st' = actions st \<and>
            elems (heap st') (actions st') = Some (xs @ [ob]) \<and>
            length (xs @ [ob]) = length xs + 1 \<and>
            (\<forall>i<length xs. (xs @ [ob]) ! i = xs ! i) \<and>
            get_prop (heap st') ob ''name'' = Inr name"
proof -
  from assms(1) obtain b where b: "actions st = Ref b" "b < length (heap st)"
    "kind (heap st ! b) = Array xs"
    using elems_SomeD by blast
  show ?thesis
  proof (cases "opts = Undefined")
    case True
    with b show ?thesis
      by (simp add: add_Undefined [OF b] Let_def fresh_def elems_def get_prop_def lookup_def
          nth_append)
  next
    case False
    with assms(2) obtain a where a: "opts = Ref a" "a < length (heap st)" by blast
    with b show ?thesis
      by (simp add: add_Ref [OF b a(2)] Let_def elems_def get_prop_def lookup_def nth_append)
  qed
qed

theorem add_appends_one_witness:
  "elems (heap s1) (actions s1) = Some [] \<and>
   (\<exists>a. Ref 6 = Ref a \<and> a < length (heap s1)) \<and>
   fst (add w0 (Str ''bold'') (Ref 6) s1) = Inr Undefined \<and>
   elems (heap (snd (add w0 (Str ''bold'') (Ref 6) s1))) (actions s1) = Some [Ref 6] \<and>
   get_prop (heap (snd (add w0 (Str ''bold'') (Ref 6) s1))) (Ref 6) ''name'' = Inr (Str ''bold'')"
proof -
  have h1: "elems (heap s1) (actions s1) = Some []"
    by (simp add: s1_eq elems_def lookup_def)
  have h2: "Ref 6 = Undefined \<or> (\<exists>a. Ref 6 = Ref a \<and> a < length (heap s1))"
    by (simp add: s1_eq)
  show ?thesis
    using add_appends_one [OF h1 h2, of w0 "Str ''bold''"] h1 h2
    by (auto simp: Let_def)
qed

text \<open>
  C8. \<open>add(name, opts)\<close> writes the name into the caller's object and stores the address
  of that very object as the last entry of the actions list, also when \<open>opts\<close> is an array
  or an element, or the actions list itself. So the registered action is \<open>opts\<close>: whatever
  ordinary property the caller assigns on \<open>opts\<close> afterwards is read back from the entry
  of the list, and the list itself stays as it is.
\<close>

theorem add_shares_opts:
  assumes "elems (heap st) (actions st) = Some xs" and "a < length (heap st)"
  shows "let st' = snd (add w name (Ref a) st)
         in fst (add w name (Ref a) st) = Inr Undefined \<and>
            get_prop (heap st') (Ref a) ''name'' = Inr name \<and>
            elems (heap st') (actions st') = Some (xs @ [Ref a]) \<and>
            last (xs @ [Ref a]) = Ref a \<and>
            (\<forall>k x. ordinary (heap st') (Ref a) k \<longrightarrow>
               (let st'' = exec w (Write (Ref a) k x) st'
                in elems (heap st'') (actions st'') = Some (xs @ [Ref a]) \<and>
                   get_prop (heap st'') (last (xs @ [Ref a])) k = Inr x))"
proof -
  from assms(1) obtain b where b: "actions st = Ref b" "b < length (heap st)"
    "kind (heap st ! b) = Array xs"
    using elems_SomeD by blast
  with assms(2) show ?thesis
    by (simp add: add_Ref [OF b assms(2)] Let_def elems_def get_prop_def set_prop_def lookup_def
        ordinary_def)
qed

theorem add_shares_opts_witness:
  "elems (heap s1) (actions s1) = Some [] \<and> 6 < length (heap s1) \<and>
   get_prop (heap s1) (Ref 6) ''name'' = Inr Undefined \<and>
   fst (add w0 (Str ''bold'') (Ref 6) s1) = Inr Undefined \<and>
   get_prop (heap (snd (add w0 (Str ''bold'') (Ref 6) s1))) (Ref 6) ''name'' = Inr (Str ''bold'') \<and>
   ordinary (heap (snd (add w0 (Str ''bold'') (Ref 6) s1))) (Ref 6) ''title'' \<and>
   elems (heap (exec w0 (Write (Ref 6) ''title'' (Str ''Bolder''))
                 (snd (add w0 (Str ''bold'') (Ref 6) s1))))
     (actions (exec w0 (Write (Ref 6) ''title'' (Str ''Bolder''))
                 (snd (add w0 (Str ''bold'') (Ref 6) s1)))) = Some [Ref 6] \<and>
   get_prop (heap (exec w0 (Write (Ref 6) ''title'' (Str ''Bolder''))
                    (snd (add w0 (Str ''bold'') (Ref 6) s1))))
     (Ref 6) ''title'' = Inr (Str ''Bolder'')"
proof -
  have h1: "elems (heap s1) (actions s1) = Some []"
    by (simp add: s1_eq elems_def lookup_def)
  have h2: "6 < length (heap s1)"
    by (simp add: s1_eq)
  have h3: "get_prop (heap s1) (Ref 6) ''name'' = Inr Undefined"
    by (simp add: s1_eq get_prop_def lookup_def)
  have a: "actions s1 = Ref 8" "8 < length (heap s1)" "kind (heap s1 ! 8) = Array []"
    by (simp_all add: s1_eq)
  have h4: "ordinary (heap (snd (add w0 (Str ''bold'') (Ref 6) s1))) (Ref 6) ''title''"
    by (simp add: add_Ref [OF a h2] ordinary_def lookup_def) (simp add: s1_eq)
  note t = add_shares_opts [OF h1 h2, of w0 "Str ''bold''", unfolded Let_def]
  from t have t1: "fst (add w0 (Str ''bold'') (Ref 6) s1) = Inr Undefined"
    "get_prop (heap (snd (add w0 (Str ''bold'') (Ref 6) s1))) (Ref 6) ''name'' =
      Inr (Str ''bold'')"
    by blast+
  from t h4 have t2: "elems (heap (exec w0 (Write (Ref 6) ''title'' (Str ''Bolder''))
                 (snd (add w0 (Str ''bold'') (Ref 6) s1))))
     (actions (exec w0 (Write (Ref 6) ''title'' (Str ''Bolder''))
                 (snd (add w0 (Str ''bold'') (Ref 6) s1)))) = Some ([] @ [Ref 6]) \<and>
   get_prop (heap (exec w0 (Write (Ref 6) ''title'' (Str ''Bolder''))
                    (snd (add w0 (Str ''bold'') (Ref 6) s1))))
     (last ([] @ [Ref 6])) ''title'' = Inr (Str ''Bolder'')"
    by blast
  from h1 h2 h3 h4 t1 t2 show ?thesis
    by (simp del: exec.simps)
qed

text \<open>
  C5. When \<open>config.em\<close> is an object whose \<open>get('Canvas')\<close> returns an object, and
  \<open>getTargetToElementDim(toolbar, lastEl, ...)\<close> called on that object returns an object
  \<open>pos\<close> of the store, and the toolbar is an element, \<open>udpatePosition\<close> makes these two
  calls and returns normally. With \<open>t\<close>, \<open>ct\<close>, \<open>et\<close>, \<open>eh\<close> and \<open>l\<close> the \<open>top\<close>,
  \<open>canvasTop\<close>, \<open>elementTop\<close>, \<open>elementHeight\<close> and \<open>left\<close> of \<open>pos\<close>: when
  \<open>config.adjustToolbar\<close> is truthy and \<open>t <= ct\<close>, the \<open>top\<close> of \<open>pos\<close> becomes \<open>et + eh\<close> and
  the toolbar's \<open>top\<close> style the text of that value followed by \<open>px\<close>; otherwise \<open>pos\<close>
  keeps its \<open>top\<close> and the style is the text of \<open>t\<close> followed by \<open>px\<close>. The \<open>left\<close> style is
  the text of \<open>l\<close> followed by \<open>px\<close>. The comparison, the sum and the texts are those of
  the engine.
\<close>

theorem udpatePosition_places_toolbar:
  assumes "get_prop (heap st) (config st) ''em'' = Inr (Ref m)"
    and "returns w (calls st @ [ModelGet (Ref m) ''Canvas'']) = Inr (Ref c)"
    and "returns w (calls st @ [ModelGet (Ref m) ''Canvas'',
           GetTargetToElementDim (Ref c) (toolbar st) (lastEl st) ''rteToolbarPosUpdate'']) =
         Inr (Ref p)"
    and "p < length (heap st)"
    and "get_prop (heap st) (Ref p) ''top'' = Inr t"
    and "get_prop (heap st) (Ref p) ''canvasTop'' = Inr ct"
    and "get_prop (heap st) (Ref p) ''elementTop'' = Inr et"
    and "get_prop (heap st) (Ref p) ''elementHeight'' = Inr eh"
    and "get_prop (heap st) (Ref p) ''left'' = Inr l"
    and "get_prop (heap st) (config st) ''adjustToolbar'' = Inr adj"
    and "element_of (heap st) (toolbar st) = Some e"
  shows "let cs = calls st @ [ModelGet (Ref m) ''Canvas'',
                    GetTargetToElementDim (Ref c) (toolbar st) (lastEl st) ''rteToolbarPosUpdate''];
             t' = (if truthy adj \<and> js_le w t ct then js_add w et eh else t);
             st' = snd (udpatePosition w st)
         in fst (udpatePosition w st) = Inr Undefined \<and>
            calls st' = cs \<and>
            get_prop (heap st') (Ref p) ''top'' = Inr t' \<and>
            element_of (heap st') (toolbar st') =
              Some (e\<lparr>style := (style e)(''top'' := to_string w t' @ ''px'',
                                        ''left'' := to_string w l @ ''px'')\<rparr>)"
proof -
  from assms(11) obtain a where a: "toolbar st = Ref a" "a < length (heap st)"
    "kind (heap st ! a) = Element e"
    using element_of_SomeD by blast
  show ?thesis
    using assms(1-10) a
    apply (simp add: udpatePosition_def call_method_def Let_def adjust_def set_prop_ordinary)
    apply (auto simp: place_def get_prop_def lookup_def set_style_def element_of_def nth_list_update)
    done
qed

theorem udpatePosition_places_toolbar_witness:
  "get_prop (heap g2) (config g2) ''em'' = Inr (Ref 1) \<and>
   returns w0 (calls g2 @ [ModelGet (Ref 1) ''Canvas'']) = Inr (Ref 4) \<and>
   returns w0 (calls g2 @ [ModelGet (Ref 1) ''Canvas'',
      GetTargetToElementDim (Ref 4) (toolbar g2) (lastEl g2) ''rteToolbarPosUpdate'']) =
     Inr (Ref 10) \<and>
   10 < length (heap g2) \<and>
   get_prop (heap g2) (Ref 10) ''top'' = Inr (Num 0x4014000000000000) \<and>
   get_prop (heap g2) (Ref 10) ''canvasTop'' = Inr (Num 0x4024000000000000) \<and>
   get_prop (heap g2) (Ref 10) ''elementTop'' = Inr (Num 0x4034000000000000) \<and>
   get_prop (heap g2) (Ref 10) ''elementHeight'' = Inr (Num 0x403E000000000000) \<and>
   get_prop (heap g2) (Ref 10) ''left'' = Inr (Num 0x401C000000000000) \<and>
   get_prop (heap g2) (config g2) ''adjustToolbar'' = Inr (Num 0x3FF0000000000000) \<and>
   element_of (heap g2) (toolbar g2) =
     Some \<lparr>className = ''gjs-rte-toolbar'', style = (\<lambda>k. [])(''display'' := []),
           parent = Null\<rparr> \<and>
   fst (udpatePosition w0 g2) = Inr Undefined \<and>
   last (calls (snd (udpatePosition w0 g2))) =
     GetTargetToElementDim (Ref 4) (Ref 9) (Ref 3) ''rteToolbarPosUpdate'' \<and>
   get_prop (heap (snd (udpatePosition w0 g2))) (Ref 10) ''top'' =
     Inr (Num 0x4049000000000000) \<and>
   map_option (\<lambda>e. (style e ''top'', style e ''left''))
     (element_of (heap (snd (udpatePosition w0 g2))) (toolbar (snd (udpatePosition w0 g2)))) =
     Some (''50px'', ''7px'')"
proof -
  have g2: "g2 = snd (enable w0 (Ref 2) Undefined g1)"
    by (simp add: g2_def)
  have h1: "get_prop (heap g2) (config g2) ''em'' = Inr (Ref 1)"
    by (simp add: g2 enable_g1 get_prop_def lookup_def)
  have h2: "returns w0 (calls g2 @ [ModelGet (Ref 1) ''Canvas'']) = Inr (Ref 4)"
    by (simp add: w0_def returns0_def)
  have h3: "returns w0 (calls g2 @ [ModelGet (Ref 1) ''Canvas'',
      GetTargetToElementDim (Ref 4) (toolbar g2) (lastEl g2) ''rteToolbarPosUpdate'']) =
     Inr (Ref 10)"
    by (simp add: w0_def returns0_def)
  have h4: "10 < length (heap g2)"
    by (simp add: g2 enable_g1)
  have h5: "get_prop (heap g2) (Ref 10) ''top'' = Inr (Num 0x4014000000000000)"
    "get_prop (heap g2) (Ref 10) ''canvasTop'' = Inr (Num 0x4024000000000000)"
    "get_prop (heap g2) (Ref 10) ''elementTop'' = Inr (Num 0x4034000000000000)"
    "get_prop (heap g2) (Ref 10) ''elementHeight'' = Inr (Num 0x403E000000000000)"
    "get_prop (heap g2) (Ref 10) ''left'' = Inr (Num 0x401C000000000000)"
    by (simp_all add: g2 enable_g1 get_prop_def lookup_def)
  have h6: "get_prop (heap g2) (config g2) ''adjustToolbar'' = Inr (Num 0x3FF0000000000000)"
    by (simp add: g2 enable_g1 get_prop_def lookup_def)
  have h7: "element_of (heap g2) (toolbar g2) =
      Some \<lparr>className = ''gjs-rte-toolbar'', style = (\<lambda>k. [])(''display'' := []), parent = Null\<rparr>"
    by (simp add: g2 enable_g1 element_of_def lookup_def)
  have h8: "toolbar g2 = Ref 9" "lastEl g2 = Ref 3"
    by (simp_all add: g2 enable_g1)
  have le: "js_le w0 (Num 0x4014000000000000) (Num 0x4024000000000000)"
    by (simp add: js_le_def is_text_def to_number_def number_le_def is_nan_def ordinal_def
        magnitude_def)
  have tr: "truthy (Num 0x3FF0000000000000)"
    by (simp add: truthy_def is_zero_def is_nan_def magnitude_def)
  have ad: "js_add w0 (Num 0x4034000000000000) (Num 0x403E000000000000) = Num 0x4049000000000000"
    by (simp add: js_add_def is_text_def to_number_def w0_def number_add0_def)
  have ts: "to_string w0 (Num 0x4049000000000000) = ''50''"
    "to_string w0 (Num 0x401C000000000000) = ''7''"
    by (simp_all add: to_string_def w0_def number_to_string0_def)
  show ?thesis
    using udpatePosition_places_toolbar [OF h1 h2 h3 h4 h5 h6 h7] h1 h2 h3 h4 h5 h6 h7
    by (simp add: Let_def h8 le tr ad ts)
qed

text \<open>
  C7. \<open>disable(view, rte)\<close> returns, and then returns \<open>undefined\<close>, exactly when \<open>view\<close> is
  an object whose \<open>getChildrenContainer\<close> returns, the editor to pass through to (the
  custom one when \<open>customRte\<close> is set, \<open>rte\<close> otherwise) is an object whose \<open>disable\<close>
  returns, and the toolbar is an element; otherwise it throws. In both cases the
  variables \<open>actions\<close>, \<open>lastEl\<close> and \<open>toolbar\<close> are as they were, nothing of the module has
  changed but the store and the record of calls, and every property, every array and
  every element other than the toolbar is as it was. When it returns it has made exactly
  the two calls \<open>view.getChildrenContainer()\<close> and \<open>customRte.disable(el, rte)\<close> (with a
  custom editor) or \<open>rte.disable()\<close> (without), and the toolbar differs from what it was
  by its \<open>display\<close> style, now \<open>none\<close>; when it throws the store is as it was.
\<close>

theorem disable_only_hides_toolbar:
  "let st' = snd (disable w view rte st)
   in (fst (disable w view rte st) = Inr Undefined) = can_disable w view rte st \<and>
      isl (fst (disable w view rte st)) = (\<not> can_disable w view rte st) \<and>
      actions st' = actions st \<and> lastEl st' = lastEl st \<and> toolbar st' = toolbar st \<and>
      st' = st\<lparr>heap := heap st', calls := calls st'\<rparr> \<and>
      map props (heap st') = map props (heap st) \<and>
      (\<forall>v. elems (heap st') v = elems (heap st) v) \<and>
      (\<forall>v. v \<noteq> toolbar st \<longrightarrow> element_of (heap st') v = element_of (heap st) v) \<and>
      (can_disable w view rte st \<longrightarrow>
         (\<exists>el. returns w (calls st @ [GetChildrenContainer view]) = Inr el \<and>
            calls st' = calls st @
              [GetChildrenContainer view,
               if truthy (customRte st) then CustomRteDisable (customRte st) el rte
               else RteDisable rte]) \<and>
         (\<exists>e. element_of (heap st) (toolbar st) = Some e \<and>
              element_of (heap st') (toolbar st) =
                Some (e\<lparr>style := (style e)(''display'' := ''none'')\<rparr>))) \<and>
      (\<not> can_disable w view rte st \<longrightarrow> heap st' = heap st)"
proof (cases "can_disable w view rte st")
  case True
  from disable_can [OF True] obtain el a e where
    el: "returns w (calls st @ [GetChildrenContainer view]) = Inr el"
    and a: "toolbar st = Ref a" "a < length (heap st)" "kind (heap st ! a) = Element e"
    and d: "disable w view rte st =
             (Inr Undefined,
              st\<lparr>calls := calls st @
                     [GetChildrenContainer view,
                      if truthy (customRte st) then CustomRteDisable (customRte st) el rte
                      else RteDisable rte],
                 heap := (heap st)[a := (heap st ! a)\<lparr>kind :=
                           Element (e\<lparr>style := (style e)(''display'' := ''none'')\<rparr>)\<rparr>]\<rparr>)"
    by blast
  have e: "element_of (heap st) (toolbar st) = Some e"
    using a by (simp add: element_of_def lookup_def)
  show ?thesis
    using True el a e
    by (auto simp: d Let_def elems_def element_of_def lookup_def nth_list_update map_update
        list_update_same_conv split: val.splits)
next
  case False
  from disable_cannot [OF False] disable_frame [of w view rte st] False show ?thesis
    by (cases "fst (disable w view rte st)")
       (auto simp: Let_def disable_def call_method_def split: sum.splits)
qed

theorem disable_only_hides_toolbar_witness:
  "can_disable w0 (Ref 2) (Ref 5) s2 \<and>
   fst (disable w0 (Ref 2) (Ref 5) s2) = Inr Undefined \<and>
   calls (snd (disable w0 (Ref 2) (Ref 5) s2)) =
     calls s2 @ [GetChildrenContainer (Ref 2), RteDisable (Ref 5)] \<and>
   actions (snd (disable w0 (Ref 2) (Ref 5) s2)) = actions s2 \<and>
   map_option (\<lambda>e. style e ''display'')
     (element_of (heap (snd (disable w0 (Ref 2) (Ref 5) s2))) (toolbar s2)) = Some ''none'' \<and>
   customRte c1 = Ref 11 \<and>
   can_disable w0 (Ref 2) (Ref 5) c1 \<and>
   fst (disable w0 (Ref 2) (Ref 5) c1) = Inr Undefined \<and>
   calls (snd (disable w0 (Ref 2) (Ref 5) c1)) =
     calls c1 @ [GetChildrenContainer (Ref 2), CustomRteDisable (Ref 11) (Ref 3) (Ref 5)] \<and>
   map_option (\<lambda>e. style e ''display'')
     (element_of (heap (snd (disable w0 (Ref 2) (Ref 5) c1))) (toolbar c1)) = Some ''none'' \<and>
   \<not> can_disable w0 (Ref 2) (Ref 5) s0 \<and>
   isl (fst (disable w0 (Ref 2) (Ref 5) s0)) \<and>
   heap (snd (disable w0 (Ref 2) (Ref 5) s0)) = heap s0"
proof -
  have s2: "s2 = snd (enable w0 (Ref 2) Undefined s1)"
    by (simp add: s2_def)
  have r: "returns w0 = returns0"
    by (simp add: w0_def)
  have a1: "can_disable w0 (Ref 2) (Ref 5) s2"
    by (simp add: can_disable_def r returns0_def s2 enable_s1 truthy_def element_of_def
        lookup_def)
  have a2: "\<not> truthy (customRte s2)"
    by (simp add: s2 enable_s1 truthy_def)
  have b0: "customRte c1 = Ref 11"
    by (simp add: c1_eq)
  have b1: "can_disable w0 (Ref 2) (Ref 5) c1"
    by (simp add: can_disable_def r returns0_def c1_eq truthy_def element_of_def lookup_def)
  have b2: "truthy (customRte c1)"
    by (simp add: b0 truthy_def)
  have b3: "returns w0 (calls c1 @ [GetChildrenContainer (Ref 2)]) = Inr (Ref 3)"
    by (simp add: r returns0_def)
  have c: "\<not> can_disable w0 (Ref 2) (Ref 5) s0"
    by (simp add: can_disable_def s0_def module_exports_def element_of_def)
  from disable_only_hides_toolbar [of w0 "Ref 2" "Ref 5" s2] a1 a2 have t1:
    "fst (disable w0 (Ref 2) (Ref 5) s2) = Inr Undefined"
    "calls (snd (disable w0 (Ref 2) (Ref 5) s2)) =
       calls s2 @ [GetChildrenContainer (Ref 2), RteDisable (Ref 5)]"
    "actions (snd (disable w0 (Ref 2) (Ref 5) s2)) = actions s2"
    "map_option (\<lambda>e. style e ''display'')
       (element_of (heap (snd (disable w0 (Ref 2) (Ref 5) s2))) (toolbar s2)) = Some ''none''"
    by (auto simp: Let_def)
  from disable_only_hides_toolbar [of w0 "Ref 2" "Ref 5" c1] b0 b1 b2 b3 have t2:
    "fst (disable w0 (Ref 2) (Ref 5) c1) = Inr Undefined"
    "calls (snd (disable w0 (Ref 2) (Ref 5) c1)) =
       calls c1 @ [GetChildrenContainer (Ref 2), CustomRteDisable (Ref 11) (Ref 3) (Ref 5)]"
    "map_option (\<lambda>e. style e ''display'')
       (element_of (heap (snd (disable w0 (Ref 2) (Ref 5) c1))) (toolbar c1)) = Some ''none''"
    by (auto simp: Let_def)
  from disable_only_hides_toolbar [of w0 "Ref 2" "Ref 5" s0] c have t3:
    "isl (fst (disable w0 (Ref 2) (Ref 5) s0))"
    "heap (snd (disable w0 (Ref 2) (Ref 5) s0)) = heap s0"
    by (auto simp: Let_def)
  from a1 b0 b1 c t1 t2 t3 show ?thesis
    by simp
qed

text \<open>
  C1. \<open>get\<close> and \<open>getAll\<close> do not read the actions list: they read an identifier,
  \<open>commands\<close>, that the module never binds. After \<open>add('bold', opts)\<close> has put the action
  into the list, \<open>get('bold')\<close> and \<open>getAll()\<close> throw a ReferenceError.
\<close>

theorem get_after_add_throws:
  "fst (add w0 (Str ''bold'') (Ref 6) s1) = Inr Undefined \<and>
   elems (heap (snd (add w0 (Str ''bold'') (Ref 6) s1)))
     (actions (snd (add w0 (Str ''bold'') (Ref 6) s1))) = Some [Ref 6] \<and>
   fst (get w0 (Str ''bold'') (snd (add w0 (Str ''bold'') (Ref 6) s1))) = Inl ReferenceError \<and>
   fst (getAll w0 (snd (add w0 (Str ''bold'') (Ref 6) s1))) = Inl ReferenceError"
proof -
  have a: "actions s1 = Ref 8" "8 < length (heap s1)" "kind (heap s1 ! 8) = Array []"
    "6 < length (heap s1)"
    by (simp_all add: s1_eq)
  have g: "globals w0 ''commands'' = None"
    by (simp add: w0_def)
  show ?thesis
    using a by (simp add: add_Ref [OF a] get_def getAll_def g elems_def lookup_def)
qed

text \<open>
  C6, as the code has it. \<open>init(opts)\<close> keeps \<open>opts\<close> itself as the configuration. When no
  default has a name that \<open>opts\<close> intercepts: every property supplied in \<open>opts\<close> keeps its
  value, except \<open>stylePrefix\<close> when the resulting \<open>pStylePrefix\<close> is truthy; a name absent
  from \<open>opts\<close> gets the default of that name when there is one and stays absent otherwise
  (again except \<open>stylePrefix\<close> under a truthy \<open>pStylePrefix\<close>); when the resulting
  \<open>pStylePrefix\<close> is truthy, \<open>stylePrefix\<close> is overwritten with \<open>pStylePrefix +
  stylePrefix\<close> (supplied or default), which is \<open>pStylePrefix\<close> concatenated with the
  configured \<open>stylePrefix\<close> when one of the two is a string or an object, and their sum
  as numbers otherwise; and the effective prefix \<open>this.pfx\<close> is the resulting
  \<open>stylePrefix\<close>.
\<close>

theorem init_config:
  assumes "a < length (heap st)"
    and "\<forall>k\<in>set (map fst (defaults w)). ordinary (heap st) (Ref a) k"
  shows "let P = props (heap st ! a);
             M = map_of (defaults w) ++ P;
             ppfx = (case M ''pStylePrefix'' of None \<Rightarrow> Undefined | Some v \<Rightarrow> v);
             sp = (case M ''stylePrefix'' of None \<Rightarrow> Undefined | Some v \<Rightarrow> v);
             st' = snd (init w (Ref a) st);
             Q = props (heap st' ! a)
         in fst (init w (Ref a) st) = Inr () \<and> config st' = Ref a \<and>
            (\<forall>k v. P k = Some v \<and> \<not> (k = ''stylePrefix'' \<and> truthy ppfx) \<longrightarrow> Q k = Some v) \<and>
            (\<forall>k. P k = None \<and> \<not> (k = ''stylePrefix'' \<and> truthy ppfx) \<longrightarrow>
                 Q k = map_of (defaults w) k) \<and>
            (truthy ppfx \<longrightarrow> Q ''stylePrefix'' = Some (js_add w ppfx sp)) \<and>
            (truthy ppfx \<and> (is_text ppfx \<or> is_text sp) \<longrightarrow>
               Q ''stylePrefix'' = Some (Str (to_string w ppfx @ to_string w sp))) \<and>
            (truthy ppfx \<and> \<not> is_text ppfx \<and> \<not> is_text sp \<longrightarrow>
               Q ''stylePrefix'' = Some (Num (number_add w (to_number w ppfx) (to_number w sp)))) \<and>
            get_prop (heap st') (Ref a) ''pStylePrefix'' = Inr ppfx \<and>
            get_prop (heap st') (Ref a) ''stylePrefix'' = Inr (pfx st')"
proof -
  from assms have o: "\<forall>k\<in>set (map fst (defaults w)). \<not> intercepted (kind (heap st ! a)) k"
    by (simp add: ordinary_def lookup_def)
  show ?thesis
    using assms(1)
    apply (simp add: init_def copy_defaults_all [OF assms(1) o] init_rest_def Let_def get_prop_def
        set_prop_ordinary lookup_def alloc_def fresh_def set_className_def new_div_def
        new_array_def nth_append nth_list_update map_add_def js_add_def)
    done
qed

theorem init_config_witness:
  "0 < length (heap s0) \<and>
   ordinary (heap s0) (Ref 0) ''stylePrefix'' \<and> ordinary (heap s0) (Ref 0) ''adjustToolbar'' \<and>
   fst (init w0 (Ref 0) s0) = Inr () \<and>
   config (snd (init w0 (Ref 0) s0)) = Ref 0 \<and>
   props (heap s0 ! 0) ''em'' = Some (Ref 1) \<and>
   props (heap (snd (init w0 (Ref 0) s0)) ! 0) ''em'' = Some (Ref 1) \<and>
   props (heap s0 ! 0) ''adjustToolbar'' = None \<and>
   props (heap (snd (init w0 (Ref 0) s0)) ! 0) ''adjustToolbar'' = Some (Num 0x3FF0000000000000) \<and>
   props (heap s0 ! 0) ''title'' = None \<and>
   props (heap (snd (init w0 (Ref 0) s0)) ! 0) ''title'' = None \<and>
   props (heap s0 ! 0) ''pStylePrefix'' = Some (Str ''gjs-'') \<and>
   props (heap s0 ! 0) ''stylePrefix'' = Some (Str ''rte-'') \<and>
   props (heap (snd (init w0 (Ref 0) s0)) ! 0) ''stylePrefix'' = Some (Str ''gjs-rte-'') \<and>
   pfx (snd (init w0 (Ref 0) s0)) = Str ''gjs-rte-''"
proof -
  have h: "0 < length (heap s0)"
    by (simp add: s0_def module_exports_def alloc_def)
  have P: "props (heap s0 ! 0) =
      [''pStylePrefix'' \<mapsto> Str ''gjs-'', ''stylePrefix'' \<mapsto> Str ''rte-'', ''em'' \<mapsto> Ref 1]"
    by (simp add: s0_def module_exports_def alloc_def h0_def)
  have D: "defaults w0 = [(''stylePrefix'', Str ''rte-''), (''adjustToolbar'', Num 0x3FF0000000000000)]"
    by (simp add: w0_def)
  have o: "ordinary (heap s0) (Ref 0) ''stylePrefix''" "ordinary (heap s0) (Ref 0) ''adjustToolbar''"
    by (simp_all add: ordinary_def lookup_def s0_def module_exports_def alloc_def h0_def)
  from o have o': "\<forall>k\<in>set (map fst (defaults w0)). ordinary (heap s0) (Ref 0) k"
    by (simp add: D)
  note t = init_config [OF h o', unfolded Let_def P D]
  from t have t1: "fst (init w0 (Ref 0) s0) = Inr ()" "config (snd (init w0 (Ref 0) s0)) = Ref 0"
    by blast+
  from t have t2: "\<forall>k v. [''pStylePrefix'' \<mapsto> Str ''gjs-'', ''stylePrefix'' \<mapsto> Str ''rte-'', ''em'' \<mapsto> Ref 1] k = Some v \<and>
      \<not> (k = ''stylePrefix'' \<and> truthy (case (map_of [(''stylePrefix'', Str ''rte-''), (''adjustToolbar'', Num 0x3FF0000000000000)] ++
           [''pStylePrefix'' \<mapsto> Str ''gjs-'', ''stylePrefix'' \<mapsto> Str ''rte-'', ''em'' \<mapsto> Ref 1]) ''pStylePrefix'' of None \<Rightarrow> Undefined | Some v \<Rightarrow> v)) \<longrightarrow>
        props (heap (snd (init w0 (Ref 0) s0)) ! 0) k = Some v"
    by blast
  from t have t3: "\<forall>k. [''pStylePrefix'' \<mapsto> Str ''gjs-'', ''stylePrefix'' \<mapsto> Str ''rte-'', ''em'' \<mapsto> Ref 1] k = None \<and>
      \<not> (k = ''stylePrefix'' \<and> truthy (case (map_of [(''stylePrefix'', Str ''rte-''), (''adjustToolbar'', Num 0x3FF0000000000000)] ++
           [''pStylePrefix'' \<mapsto> Str ''gjs-'', ''stylePrefix'' \<mapsto> Str ''rte-'', ''em'' \<mapsto> Ref 1]) ''pStylePrefix'' of None \<Rightarrow> Undefined | Some v \<Rightarrow> v)) \<longrightarrow>
        props (heap (snd (init w0 (Ref 0) s0)) ! 0) k =
          map_of [(''stylePrefix'', Str ''rte-''), (''adjustToolbar'', Num 0x3FF0000000000000)] k"
    by blast
  from t have t4: "truthy (case (map_of [(''stylePrefix'', Str ''rte-''), (''adjustToolbar'', Num 0x3FF0000000000000)] ++
           [''pStylePrefix'' \<mapsto> Str ''gjs-'', ''stylePrefix'' \<mapsto> Str ''rte-'', ''em'' \<mapsto> Ref 1]) ''pStylePrefix'' of None \<Rightarrow> Undefined | Some v \<Rightarrow> v) \<and>
      (is_text (case (map_of [(''stylePrefix'', Str ''rte-''), (''adjustToolbar'', Num 0x3FF0000000000000)] ++
           [''pStylePrefix'' \<mapsto> Str ''gjs-'', ''stylePrefix'' \<mapsto> Str ''rte-'', ''em'' \<mapsto> Ref 1]) ''pStylePrefix'' of None \<Rightarrow> Undefined | Some v \<Rightarrow> v) \<or>
       is_text (case (map_of [(''stylePrefix'', Str ''rte-''), (''adjustToolbar'', Num 0x3FF0000000000000)] ++
           [''pStylePrefix'' \<mapsto> Str ''gjs-'', ''stylePrefix'' \<mapsto> Str ''rte-'', ''em'' \<mapsto> Ref 1]) ''stylePrefix'' of None \<Rightarrow> Undefined | Some v \<Rightarrow> v)) \<longrightarrow>
      props (heap (snd (init w0 (Ref 0) s0)) ! 0) ''stylePrefix'' =
        Some (Str (to_string w0 (case (map_of [(''stylePrefix'', Str ''rte-''), (''adjustToolbar'', Num 0x3FF0000000000000)] ++
           [''pStylePrefix'' \<mapsto> Str ''gjs-'', ''stylePrefix'' \<mapsto> Str ''rte-'', ''em'' \<mapsto> Ref 1]) ''pStylePrefix'' of None \<Rightarrow> Undefined | Some v \<Rightarrow> v) @
                   to_string w0 (case (map_of [(''stylePrefix'', Str ''rte-''), (''adjustToolbar'', Num 0x3FF0000000000000)] ++
           [''pStylePrefix'' \<mapsto> Str ''gjs-'', ''stylePrefix'' \<mapsto> Str ''rte-'', ''em'' \<mapsto> Ref 1]) ''stylePrefix'' of None \<Rightarrow> Undefined | Some v \<Rightarrow> v)))"
    by blast
  from t have t5: "get_prop (heap (snd (init w0 (Ref 0) s0))) (Ref 0) ''stylePrefix'' =
      Inr (pfx (snd (init w0 (Ref 0) s0)))"
    by blast
  from t2 [rule_format, of "''em''" "Ref 1"] have c1:
    "props (heap (snd (init w0 (Ref 0) s0)) ! 0) ''em'' = Some (Ref 1)"
    by simp
  from t3 [rule_format, of "''adjustToolbar''"] have c2:
    "props (heap (snd (init w0 (Ref 0) s0)) ! 0) ''adjustToolbar'' = Some (Num 0x3FF0000000000000)"
    by simp
  from t3 [rule_format, of "''title''"] have c3:
    "props (heap (snd (init w0 (Ref 0) s0)) ! 0) ''title'' = None"
    by simp
  from t4 have c4:
    "props (heap (snd (init w0 (Ref 0) s0)) ! 0) ''stylePrefix'' = Some (Str ''gjs-rte-'')"
    by (simp add: truthy_def map_add_def is_text_def to_string_def)
  have len: "heap (snd (init w0 (Ref 0) s0)) \<noteq> []"
    using init_length [of s0 w0 "Ref 0"] h by auto
  from c4 t5 len have c5: "pfx (snd (init w0 (Ref 0) s0)) = Str ''gjs-rte-''"
    by (simp add: get_prop_def lookup_def)
  from h o t1 c1 c2 c3 c4 c5 show ?thesis
    by (simp add: P)
qed

text \<open>
  C6, as stated, fails twice. A \<open>stylePrefix\<close> supplied in \<open>opts\<close> next to a truthy
  \<open>pStylePrefix\<close> does not stay unchanged: with \<open>opts = {pStylePrefix: 'gjs-',
  stylePrefix: 'rte-', em}\<close>, \<open>opts.stylePrefix\<close> is \<open>'gjs-rte-'\<close> after \<open>init(opts)\<close>. And the
  result is not always a concatenation: with \<open>opts = {pStylePrefix: true, stylePrefix:
  null}\<close> it is the number 1, the sum of 1 and 0, where the concatenation would be
  \<open>'truenull'\<close>.
\<close>

theorem init_overwrites_stylePrefix:
  "get_prop (heap s0) (Ref 0) ''stylePrefix'' = Inr (Str ''rte-'') \<and>
   fst (init w0 (Ref 0) s0) = Inr () \<and>
   get_prop (heap (snd (init w0 (Ref 0) s0))) (Ref 0) ''stylePrefix'' = Inr (Str ''gjs-rte-'') \<and>
   get_prop (heap n0) (Ref 0) ''pStylePrefix'' = Inr (Bool True) \<and>
   get_prop (heap n0) (Ref 0) ''stylePrefix'' = Inr Null \<and>
   fst (init w0 (Ref 0) n0) = Inr () \<and>
   get_prop (heap (snd (init w0 (Ref 0) n0))) (Ref 0) ''stylePrefix'' =
     Inr (Num 0x3FF0000000000000) \<and>
   to_string w0 (Bool True) @ to_string w0 Null = ''truenull''"
proof -
  have "get_prop (heap s0) (Ref 0) ''stylePrefix'' = Inr (Str ''rte-'')"
    by (simp add: s0_def module_exports_def alloc_def h0_def get_prop_def lookup_def)
  moreover have "init w0 (Ref 0) s0 = (Inr (), s1)"
    by (simp add: s1_def s0_def h0_def w0_def eval_defs)
  moreover have "get_prop (heap s1) (Ref 0) ''stylePrefix'' = Inr (Str ''gjs-rte-'')"
    by (simp add: s1_eq get_prop_def lookup_def)
  moreover have "get_prop (heap n0) (Ref 0) ''pStylePrefix'' = Inr (Bool True)"
    "get_prop (heap n0) (Ref 0) ''stylePrefix'' = Inr Null"
    by (simp_all add: n0_def module_exports_def alloc_def get_prop_def lookup_def)
  moreover have "fst (init w0 (Ref 0) n0) = Inr () \<and>
      get_prop (heap (snd (init w0 (Ref 0) n0))) (Ref 0) ''stylePrefix'' =
        Inr (Num 0x3FF0000000000000)"
    by (simp add: n0_def w0_def eval_defs to_number_def number_add0_def)
  moreover have "to_string w0 (Bool True) @ to_string w0 Null = ''truenull''"
    by (simp add: to_string_def)
  ultimately show ?thesis
    by simp
qed

text \<open>
  C3. When \<open>enable(view, rte)\<close> returns, \<open>lastEl\<close> is \<open>view.el\<close>; it stays so through every
  run of operations without another \<open>enable\<close>, and a position update in the state such a
  run reaches passes that element, with the toolbar, to \<open>getTargetToElementDim\<close>.
\<close>

theorem enable_records_lastEl:
  assumes "enable w view rte st = (Inr r, st1)" and "\<forall>x\<in>set ops. \<not> is_Enable x"
  shows "\<exists>vel. get_prop (heap st) view ''el'' = Inr vel \<and> lastEl st1 = vel \<and>
           lastEl (run w ops st1) = vel \<and>
           (\<forall>u s'. udpatePosition w (run w ops st1) = (Inr u, s') \<longrightarrow>
              (\<exists>m c. calls s' = calls (run w ops st1) @
                 [ModelGet m ''Canvas'',
                  GetTargetToElementDim c (toolbar (run w ops st1)) vel ''rteToolbarPosUpdate'']))"
  using enable_lastEl [OF assms(1)] run_lastEl [OF assms(2), of w st1]
    udpatePosition_calls [of w "run w ops st1"]
  by auto

theorem enable_records_lastEl_witness:
  "enable w0 (Ref 2) Undefined s1 = (Inr (Ref 5), s2) \<and>
   \<not> is_Enable (Disable (Ref 2) (Ref 5)) \<and>
   get_prop (heap s1) (Ref 2) ''el'' = Inr (Ref 3) \<and>
   lastEl (run w0 [Disable (Ref 2) (Ref 5)] s2) = Ref 3 \<and>
   fst (udpatePosition w0 (run w0 [Disable (Ref 2) (Ref 5)] s2)) = Inr Undefined \<and>
   (\<exists>m c. calls (snd (udpatePosition w0 (run w0 [Disable (Ref 2) (Ref 5)] s2))) =
      calls (run w0 [Disable (Ref 2) (Ref 5)] s2) @
        [ModelGet m ''Canvas'',
         GetTargetToElementDim c (toolbar (run w0 [Disable (Ref 2) (Ref 5)] s2)) (Ref 3)
           ''rteToolbarPosUpdate''])"
proof -
  have h1: "enable w0 (Ref 2) Undefined s1 = (Inr (Ref 5), s2)"
    by (simp add: s2_def enable_s1)
  have h2: "\<forall>x\<in>set [Disable (Ref 2) (Ref 5)]. \<not> is_Enable x"
    by simp
  have h3: "get_prop (heap s1) (Ref 2) ''el'' = Inr (Ref 3)"
    by (simp add: s1_eq get_prop_def lookup_def)
  have r: "run w0 [Disable (Ref 2) (Ref 5)] s2 = s3"
    by (simp add: s3_def)
  obtain u s' where u: "udpatePosition w0 s3 = (Inr u, s')"
    using udpatePosition_s3 by (cases "udpatePosition w0 s3") auto
  from enable_records_lastEl [OF h1 h2] h1 h2 h3 r u udpatePosition_s3 show ?thesis
    by (auto simp del: run.simps)
qed

text \<open>
  C10. When \<open>init\<close> returns, the toolbar is an element that did not exist before, without
  style and without parent; through every run of operations without another \<open>init\<close>
  the variable \<open>toolbar\<close> refers to that same object, \<open>getToolbarEl()\<close> returns it and
  changes nothing, and the object is still an element of the same class.
\<close>

theorem toolbar_element_is_kept:
  assumes "init w opts st = (Inr u, st1)" and "\<forall>x\<in>set ops. \<not> is_Init x"
  shows "\<exists>a e. toolbar st1 = Ref a \<and> length (heap st) \<le> a \<and>
           element_of (heap st1) (Ref a) = Some e \<and> style e = (\<lambda>k. []) \<and> parent e = Null \<and>
           toolbar (run w ops st1) = Ref a \<and>
           getToolbarEl (run w ops st1) = (Inr (Ref a), run w ops st1) \<and>
           (\<exists>e'. element_of (heap (run w ops st1)) (Ref a) = Some e' \<and>
                 className e' = className e)"
proof -
  from init_toolbar [OF assms(1)] obtain e where
    a: "toolbar st1 = Ref (length (heap st1) - 1)" "length (heap st) < length (heap st1)"
    and e: "element_of (heap st1) (toolbar st1) = Some e" "style e = (\<lambda>k. [])" "parent e = Null"
    by blast
  from skeleton_element_of [OF run_skeleton [OF assms(2)] e(1)] obtain e' where
    e': "element_of (heap (run w ops st1)) (toolbar st1) = Some e'" "className e' = className e"
    by blast
  from a e e' run_toolbar [OF assms(2), of w st1] show ?thesis
    by (auto simp: getToolbarEl_def)
qed

theorem toolbar_element_is_kept_witness:
  "init w0 (Ref 0) s0 = (Inr (), s1) \<and>
   \<not> is_Init (Enable (Ref 2) Undefined) \<and> \<not> is_Init (Disable (Ref 2) (Ref 5)) \<and>
   toolbar s1 = Ref 9 \<and> length (heap s0) \<le> 9 \<and>
   toolbar (run w0 [Enable (Ref 2) Undefined, Disable (Ref 2) (Ref 5)] s1) = Ref 9 \<and>
   fst (getToolbarEl (run w0 [Enable (Ref 2) Undefined, Disable (Ref 2) (Ref 5)] s1)) =
     Inr (Ref 9) \<and>
   (\<exists>e'. element_of (heap (run w0 [Enable (Ref 2) Undefined, Disable (Ref 2) (Ref 5)] s1))
           (Ref 9) = Some e' \<and> className e' = ''gjs-rte-toolbar'')"
proof -
  have h1: "init w0 (Ref 0) s0 = (Inr (), s1)"
    by (simp add: s1_def s0_def h0_def w0_def eval_defs)
  have h2: "\<forall>x\<in>set [Enable (Ref 2) Undefined, Disable (Ref 2) (Ref 5)]. \<not> is_Init x"
    by simp
  have t: "toolbar s1 = Ref 9"
    by (simp add: s1_eq)
  have e: "element_of (heap s1) (Ref 9) =
      Some \<lparr>className = ''gjs-rte-toolbar'', style = \<lambda>k. [], parent = Null\<rparr>"
    by (simp add: s1_eq element_of_def lookup_def)
  from toolbar_element_is_kept [OF h1 h2] h1 h2 t e show ?thesis
    by (auto simp del: run.simps)
qed






end
